theory Spec2Isabelle
  imports Complex_Main
begin

section \<open>JavaScript values\<close>

text \<open>
  The services are TypeScript. A \<open>number\<close> is modelled by a real: sums, products and
  quotients are exact, so rounding of IEEE doubles, \<open>NaN\<close> and the infinities are outside
  the model. An optional property (\<open>field?: number\<close>) is an \<open>option\<close>, \<open>None\<close> standing
  for \<open>undefined\<close>. The only places where the value of a number decides control flow are
  the truthiness tests \<open>x ? a : b\<close> and \<open>x || d\<close>: \<open>undefined\<close> and \<open>0\<close> are falsy, every
  other number of the model is truthy.
\<close>

definition truthy :: "real option \<Rightarrow> bool" where
  "truthy v = (case v of None \<Rightarrow> False | Some x \<Rightarrow> x \<noteq> 0)"

text \<open>\<open>v || d\<close> on an optional number.\<close>

definition num_or :: "real option \<Rightarrow> real \<Rightarrow> real" where
  "num_or v d = (if truthy v then the v else d)"

subsection \<open>Numbers as text\<close>

text \<open>\<open>Number.prototype.toString\<close> on an integer, and \<open>String.prototype.padStart\<close> with a
  one-character filler.\<close>

definition digit_char :: "nat \<Rightarrow> char" where
  "digit_char d = ''0123456789'' ! d"

function digits :: "nat \<Rightarrow> string" where
  "digits n = (if n < 10 then [digit_char n] else digits (n div 10) @ [digit_char (n mod 10)])"
  by pat_completeness auto
termination
  by (relation "measure (\<lambda>n. n)") auto

declare digits.simps [simp del]

definition toString :: "int \<Rightarrow> string" where
  "toString n = (if n < 0 then CHR ''-'' # digits (nat (- n)) else digits (nat n))"

definition padStart :: "nat \<Rightarrow> char \<Rightarrow> string \<Rightarrow> string" where
  "padStart targetLength c s = replicate (targetLength - length s) c @ s"

section \<open>Monetary calculator\<close>

subsection \<open>VAT table\<close>

text \<open>
  \<open>getVatRateValue\<close> builds the object literal \<open>rates\<close> and returns
  \<open>rates[vatRate] || 20.0\<close>. The literal is an association list here; a key that is not an
  own property of the literal reads \<open>undefined\<close> (members inherited from
  \<open>Object.prototype\<close>, such as \<open>constructor\<close>, are not modelled). The invoice service and
  the quote service each carry their own copy of the method.
\<close>

definition InvoiceService_rates :: "(string \<times> real) list" where
  "InvoiceService_rates =
     [(''ZERO'', 0), (''REDUCED_1'', 2.1), (''REDUCED_2'', 5.5),
      (''REDUCED_3'', 10.0), (''STANDARD'', 20.0), (''EXPORT'', 0)]"

definition InvoiceService_getVatRateValue :: "string \<Rightarrow> real" where
  "InvoiceService_getVatRateValue vatRate = num_or (map_of InvoiceService_rates vatRate) 20.0"

definition QuoteService_rates :: "(string \<times> real) list" where
  "QuoteService_rates =
     [(''ZERO'', 0), (''REDUCED_1'', 2.1), (''REDUCED_2'', 5.5),
      (''REDUCED_3'', 10.0), (''STANDARD'', 20.0), (''EXPORT'', 0)]"

definition QuoteService_getVatRateValue :: "string \<Rightarrow> real" where
  "QuoteService_getVatRateValue vatRate = num_or (map_of QuoteService_rates vatRate) 20.0"

text \<open>The table as the specification reads it: the entry of a listed code, 20 otherwise.\<close>

definition spec_vat_table :: "string \<Rightarrow> real" where
  "spec_vat_table code =
     (if code = ''ZERO'' then 0
      else if code = ''REDUCED_1'' then 2.1
      else if code = ''REDUCED_2'' then 5.5
      else if code = ''REDUCED_3'' then 10.0
      else if code = ''STANDARD'' then 20.0
      else if code = ''EXPORT'' then 0
      else 20.0)"

subsection \<open>Line items and totals\<close>

text \<open>
  A raw line item, as \<open>ICreateInvoiceRequest.items\<close> and \<open>ICreateQuoteRequest.items\<close>
  declare it. The calculator returns each item spread into a new object with the two
  computed totals added, which is the record extension \<open>calc_item\<close>.
\<close>

record raw_item =
  product_id :: "string option"
  name :: "string option"
  description :: "string option"
  quantity :: real
  unit :: string
  unit_price_excluding_tax :: real
  discount_percentage :: "real option"
  discount_amount :: "real option"
  vat_rate :: string
  sort_order :: "real option"

record calc_item = raw_item +
  total_excluding_tax :: real
  total_including_tax :: real

record doc_totals =
  totalExcludingTax :: real
  totalTax :: real
  totalIncludingTax :: real

record calculated =
  items :: "calc_item list"
  totals :: doc_totals

text \<open>The callback of \<open>itemsData.map\<close> in \<open>calculateInvoiceTotals\<close>.\<close>

definition InvoiceService_item :: "raw_item \<Rightarrow> calc_item" where
  "InvoiceService_item item =
     (let lineTotal = quantity item * unit_price_excluding_tax item;
          discountAmount =
            (if truthy (discount_percentage item)
             then (lineTotal * the (discount_percentage item)) / 100
             else num_or (discount_amount item) 0);
          totalExcludingTax = lineTotal - discountAmount;
          vatRate = InvoiceService_getVatRateValue (vat_rate item);
          vatAmount = (totalExcludingTax * vatRate) / 100;
          totalIncludingTax = totalExcludingTax + vatAmount
      in raw_item.extend item (calc_item.fields totalExcludingTax totalIncludingTax))"

definition calculateInvoiceTotals :: "raw_item list \<Rightarrow> calculated" where
  "calculateInvoiceTotals itemsData =
     (let its = map InvoiceService_item itemsData;
          totalExcludingTax = foldl (\<lambda>sum item. sum + total_excluding_tax item) 0 its;
          totalTax =
            foldl (\<lambda>sum item. sum + (total_including_tax item - total_excluding_tax item)) 0 its;
          totalIncludingTax = foldl (\<lambda>sum item. sum + total_including_tax item) 0 its
      in \<lparr>items = its,
          totals = \<lparr>totalExcludingTax = totalExcludingTax, totalTax = totalTax,
                     totalIncludingTax = totalIncludingTax\<rparr>\<rparr>)"

text \<open>The callback of \<open>itemsData.map\<close> in \<open>calculateQuoteTotals\<close>.\<close>

definition QuoteService_item :: "raw_item \<Rightarrow> calc_item" where
  "QuoteService_item item =
     (let lineTotal = quantity item * unit_price_excluding_tax item;
          discountAmount =
            (if truthy (discount_percentage item)
             then (lineTotal * the (discount_percentage item)) / 100
             else num_or (discount_amount item) 0);
          totalExcludingTax = lineTotal - discountAmount;
          vatRate = QuoteService_getVatRateValue (vat_rate item);
          vatAmount = (totalExcludingTax * vatRate) / 100;
          totalIncludingTax = totalExcludingTax + vatAmount
      in raw_item.extend item (calc_item.fields totalExcludingTax totalIncludingTax))"

definition calculateQuoteTotals :: "raw_item list \<Rightarrow> calculated" where
  "calculateQuoteTotals itemsData =
     (let its = map QuoteService_item itemsData;
          totalExcludingTax = foldl (\<lambda>sum item. sum + total_excluding_tax item) 0 its;
          totalTax =
            foldl (\<lambda>sum item. sum + (total_including_tax item - total_excluding_tax item)) 0 its;
          totalIncludingTax = foldl (\<lambda>sum item. sum + total_including_tax item) 0 its
      in \<lparr>items = its,
          totals = \<lparr>totalExcludingTax = totalExcludingTax, totalTax = totalTax,
                     totalIncludingTax = totalIncludingTax\<rparr>\<rparr>)"

text \<open>
  The discount of a line as the specification words it: the percentage of the line total
  whenever \<open>discount_percentage\<close> is set, the explicit amount only when it is absent.
\<close>

definition spec_discount :: "raw_item \<Rightarrow> real" where
  "spec_discount item =
     (case discount_percentage item of
        Some p \<Rightarrow> (quantity item * unit_price_excluding_tax item) * p / 100
      | None \<Rightarrow> (case discount_amount item of Some a \<Rightarrow> a | None \<Rightarrow> 0))"

section \<open>Storage\<close>

text \<open>
  The services reach the database through Prisma and keep copies of invoices and quotes
  in Redis. The state of the model is the database and the Redis store together.

  A table is the list of its rows: \<open>findUnique\<close> is \<open>find\<close> on the key, \<open>update\<close> rewrites
  the row with that key and raises when there is none, \<open>createMany\<close> appends rows and
  \<open>deleteMany\<close> filters them out.

  Identifiers that the database generates (\<open>invoice_id\<close>, \<open>quote_id\<close>, \<open>item_id\<close>) are
  natural numbers drawn from the counter \<open>next_id\<close>, written in decimal where a cache key
  is built from them; identifiers handed in by the caller (company, customer, user) are
  strings. A \<open>Date\<close> is its time value, the milliseconds since the epoch, as an integer;
  the range limit of \<open>Date\<close> is not modelled.

  The Prisma schema is not part of the sources. The default status that the database
  gives a new invoice row is therefore a parameter of the environment.
\<close>

type_synonym date = int

text \<open>
  The settings of a company, with the columns that numbering and conversion concern. The
  two counters are integers without an upper bound: the width of the column is fixed by
  the schema.
\<close>

record company_settings =
  company_id :: string
  invoice_prefix :: string
  quote_prefix :: string
  next_invoice_number :: int
  next_quote_number :: int
  default_payment_terms :: int

text \<open>
  Rows of \<open>invoice\<close> and \<open>invoiceItem\<close>. Columns that the modelled operations store as
  given and never read (\<open>late_payment_penalty\<close>, \<open>internal_notes\<close>, \<open>meta_data\<close>,
  \<open>payment_method\<close>, the payment columns and the timestamps of other transitions) are left
  out.
\<close>

record invoice =
  invoice_id :: nat
  inv_customer_id :: string
  inv_user_id :: string
  inv_company_id :: string
  invoice_number :: string
  inv_reference :: "string option"
  inv_invoice_date :: date
  inv_due_date :: date
  inv_amount_excluding_tax :: real
  inv_tax :: real
  inv_amount_including_tax :: real
  inv_discount_amount :: real
  inv_discount_percentage :: "real option"
  inv_shipping_cost :: real
  inv_status :: string
  inv_currency :: string
  inv_exchange_rate :: "real option"
  inv_conditions :: "string option"
  inv_notes :: "string option"
  inv_language :: string
  inv_template_id :: "string option"

record invoice_item =
  ii_item_id :: nat
  ii_invoice_id :: nat
  ii_product_id :: "string option"
  ii_name :: "string option"
  ii_description :: "string option"
  ii_quantity :: real
  ii_unit :: string
  ii_unit_price_excluding_tax :: real
  ii_discount_percentage :: "real option"
  ii_discount_amount :: "real option"
  ii_vat_rate :: string
  ii_total_excluding_tax :: real
  ii_total_including_tax :: real
  ii_sort_order :: real

text \<open>
  Rows of \<open>quote\<close> and \<open>quoteItem\<close>, with the columns that acceptance and conversion read
  or write.
\<close>

record quote =
  quote_id :: nat
  q_customer_id :: string
  q_user_id :: string
  q_company_id :: string
  q_validity_date :: date
  q_discount_amount :: "real option"
  q_discount_percentage :: "real option"
  q_shipping_cost :: "real option"
  q_status :: string
  q_currency :: string
  q_exchange_rate :: "real option"
  q_conditions :: "string option"
  q_notes :: "string option"
  q_language :: string
  q_template_id :: "string option"
  q_accepted_at :: "date option"
  q_converted_to_invoice :: bool
  q_invoice_id :: "nat option"

record quote_item =
  qi_item_id :: nat
  qi_quote_id :: nat
  qi_product_id :: "string option"
  qi_name :: "string option"
  qi_description :: "string option"
  qi_quantity :: real
  qi_unit :: string
  qi_unit_price_excluding_tax :: real
  qi_discount_percentage :: "real option"
  qi_discount_amount :: "real option"
  qi_vat_rate :: string
  qi_sort_order :: real

text \<open>
  The Redis store. \<open>CacheService.set\<close> writes \<open>JSON.stringify(value)\<close> and
  \<open>CacheService.get\<close> returns \<open>JSON.parse\<close> of what it finds, so an entry holds the data of
  the entity as it was when it was cached, and what a reader gets back is a copy made of
  strings, numbers and plain objects. The two families of keys that the modelled
  operations read, \<open>quote:<id>\<close> and \<open>invoice:<id>\<close>, are kept apart by type; each entry
  is stored under its full key. Entries of other families (lists, statistics, companies)
  are read by no modelled operation and are left out, and so is the expiry of an entry.

  \<open>origin\<close> tells an object that Prisma returned from the parsed copy of a cached one.
\<close>

datatype origin = Live | Cached

record redis =
  quote_entries :: "(string \<times> (quote \<times> quote_item list)) list"
  invoice_entries :: "(string \<times> (invoice \<times> invoice_item list)) list"

record db =
  companySettings_table :: "company_settings list"
  invoice_table :: "invoice list"
  invoiceItem_table :: "invoice_item list"
  quote_table :: "quote list"
  quoteItem_table :: "quote_item list"
  next_id :: nat
  cache :: redis

text \<open>
  Every access to the database can raise, and so can the write of a cache entry
  (\<open>CacheService.set\<close> rethrows). The environment says which accesses of the running
  operation do: \<open>Invoice_find\<close> and \<open>Quote_find\<close> are the \<open>getInvoiceById\<close> and
  \<open>getQuoteById\<close> calls that open an operation, \<open>Invoice_readback\<close> and \<open>Quote_readback\<close>
  the ones that close it, \<open>Invoice_create\<close> and \<open>Invoice_update\<close> the transactions of
  \<open>createInvoice\<close> and \<open>updateInvoice\<close>. A transaction that raises is rolled back. A read
  of the cache does not raise (\<open>CacheService.get\<close> turns an error into a miss), and the
  invalidation of the cache is taken to run to its end: \<open>invalidateCache\<close> catches and logs
  what it raises.
\<close>

datatype step =
  Settings_find | Settings_create | Settings_update
  | Invoice_find | Invoice_create | Invoice_update | Invoice_readback
  | Quote_find | Quote_update | Quote_readback

record env =
  fails :: "step \<Rightarrow> bool"
  default_invoice_status :: string

text \<open>
  The error classes of \<open>customError.ts\<close> that the modelled operations raise. The status
  errors carry the current status and the attempted action; the messages of the generic
  errors are left out, and accents are dropped from the action texts.
\<close>

datatype error =
  NotFoundError string nat
  | InvoiceStatusError string string
  | QuoteStatusError string string
  | InvoiceError
  | QuoteError
  | CompanyError

text \<open>Two states with the same database: the same rows in every table and the same counter of
  identifiers. The Redis stores may differ.\<close>

definition same_tables :: "db \<Rightarrow> db \<Rightarrow> bool" where
  "same_tables d d' =
     (companySettings_table d' = companySettings_table d \<and>
      invoice_table d' = invoice_table d \<and>
      invoiceItem_table d' = invoiceItem_table d \<and>
      quote_table d' = quote_table d \<and>
      quoteItem_table d' = quoteItem_table d \<and>
      next_id d' = next_id d)"

section \<open>Cache\<close>

text \<open>
  The client of \<open>redis.ts\<close> is configured with \<open>keyPrefix: "business:"\<close>. The client
  library puts the prefix in front of the key of \<open>GET\<close>, \<open>SETEX\<close> and \<open>DEL\<close>; the pattern
  of \<open>KEYS\<close> goes to the server as it is, and the answer is the list of full keys.
  \<open>glob\<close> matches a pattern against a key; \<open>*\<close> is the only special character that the
  patterns of the cache service use.
\<close>

definition keyPrefix :: string where
  "keyPrefix = ''business:''"

fun glob :: "string \<Rightarrow> string \<Rightarrow> bool" where
  "glob [] s = (s = [])"
| "glob (p # ps) [] = (p = CHR ''*'' \<and> glob ps [])"
| "glob (p # ps) (c # cs) =
     (if p = CHR ''*'' then glob ps (c # cs) \<or> glob (p # ps) cs else p = c \<and> glob ps cs)"

definition client_keys :: "string \<Rightarrow> redis \<Rightarrow> string list" where
  "client_keys pattern r =
     filter (glob pattern) (map fst (quote_entries r) @ map fst (invoice_entries r))"

definition client_del :: "string list \<Rightarrow> redis \<Rightarrow> redis" where
  "client_del ks r =
     r\<lparr>quote_entries :=
         filter (\<lambda>ent. fst ent \<notin> set (map (\<lambda>k. keyPrefix @ k) ks)) (quote_entries r),
       invoice_entries :=
         filter (\<lambda>ent. fst ent \<notin> set (map (\<lambda>k. keyPrefix @ k) ks)) (invoice_entries r)\<rparr>"

text \<open>\<open>CacheService.delPattern\<close>: the keys that \<open>KEYS\<close> answers are handed to \<open>DEL\<close>.\<close>

definition delPattern :: "string \<Rightarrow> redis \<Rightarrow> redis" where
  "delPattern pattern r =
     (let keys = client_keys pattern r
      in if length keys > 0 then client_del keys r else r)"

definition invalidateCompany :: "string \<Rightarrow> redis \<Rightarrow> redis" where
  "invalidateCompany companyId r =
     delPattern (''*:company:'' @ companyId @ ''*'') (delPattern (''company:'' @ companyId @ ''*'') r)"

definition invalidateInvoice :: "nat \<Rightarrow> redis \<Rightarrow> redis" where
  "invalidateInvoice invoiceId r =
     delPattern (''*:invoice:'' @ digits invoiceId @ ''*'')
       (delPattern (''invoice:'' @ digits invoiceId @ ''*'') r)"

definition invalidateQuote :: "nat \<Rightarrow> redis \<Rightarrow> redis" where
  "invalidateQuote quoteId r =
     delPattern (''*:quote:'' @ digits quoteId @ ''*'')
       (delPattern (''quote:'' @ digits quoteId @ ''*'') r)"

definition invalidateStats :: "string \<Rightarrow> redis \<Rightarrow> redis" where
  "invalidateStats companyId r = delPattern (''stats:*:'' @ companyId) r"

definition invalidateListCache :: "string \<Rightarrow> redis \<Rightarrow> redis" where
  "invalidateListCache listType r = delPattern (''list:'' @ listType @ '':*'') r"

text \<open>
  The private \<open>invalidateCache\<close> of the three services. Each starts its three
  invalidations together; they only delete, and the model runs them in the order in
  which the source lists them.
\<close>

definition CompanyService_invalidateCache :: "string \<Rightarrow> db \<Rightarrow> db" where
  "CompanyService_invalidateCache companyId d =
     d\<lparr>cache :=
         invalidateListCache ''companies''
           (invalidateStats companyId (invalidateCompany companyId (cache d)))\<rparr>"

definition InvoiceService_invalidateCache :: "nat \<Rightarrow> string \<Rightarrow> db \<Rightarrow> db" where
  "InvoiceService_invalidateCache invoiceId companyId d =
     d\<lparr>cache :=
         invalidateListCache ''invoices''
           (invalidateStats companyId (invalidateInvoice invoiceId (cache d)))\<rparr>"

definition QuoteService_invalidateCache :: "nat \<Rightarrow> string \<Rightarrow> db \<Rightarrow> db" where
  "QuoteService_invalidateCache quoteId companyId d =
     d\<lparr>cache :=
         invalidateListCache ''quotes''
           (invalidateStats companyId (invalidateQuote quoteId (cache d)))\<rparr>"

text \<open>\<open>CacheService.get\<close> and \<open>CacheService.set\<close> on the keys of the two families.\<close>

definition cache_get_invoice :: "string \<Rightarrow> redis \<Rightarrow> (invoice \<times> invoice_item list) option" where
  "cache_get_invoice key r = map_of (invoice_entries r) (keyPrefix @ key)"

definition cache_set_invoice :: "string \<Rightarrow> invoice \<times> invoice_item list \<Rightarrow> redis \<Rightarrow> redis" where
  "cache_set_invoice key v r =
     r\<lparr>invoice_entries :=
         (keyPrefix @ key, v) # filter (\<lambda>ent. fst ent \<noteq> keyPrefix @ key) (invoice_entries r)\<rparr>"

definition cache_get_quote :: "string \<Rightarrow> redis \<Rightarrow> (quote \<times> quote_item list) option" where
  "cache_get_quote key r = map_of (quote_entries r) (keyPrefix @ key)"

definition cache_set_quote :: "string \<Rightarrow> quote \<times> quote_item list \<Rightarrow> redis \<Rightarrow> redis" where
  "cache_set_quote key v r =
     r\<lparr>quote_entries :=
         (keyPrefix @ key, v) # filter (\<lambda>ent. fst ent \<noteq> keyPrefix @ key) (quote_entries r)\<rparr>"

text \<open>
  The keys that the services write are the prefix followed by \<open>quote:\<close> or \<open>invoice:\<close> and
  an identifier. \<open>well_keyed\<close> says of a store that every key in it starts with the prefix
  and does not carry it twice.
\<close>

definition well_keyed :: "redis \<Rightarrow> bool" where
  "well_keyed r =
     list_all (\<lambda>k. take (length keyPrefix) k = keyPrefix \<and>
                    take (length keyPrefix) (drop (length keyPrefix) k) \<noteq> keyPrefix)
       (map fst (quote_entries r) @ map fst (invoice_entries r))"

section \<open>Sequence generator\<close>

text \<open>
  \<open>getCompanySettings\<close> reads the settings from the database, never from the cache.
  The two generators update the counter and then invalidate the cache of the company.
\<close>

definition createDefaultSettings :: "env \<Rightarrow> db \<Rightarrow> string \<Rightarrow> db \<times> (error + company_settings)" where
  "createDefaultSettings e d companyId =
     (if fails e Settings_create then (d, Inl CompanyError)
      else
        let settings = \<lparr>company_id = companyId, invoice_prefix = ''INV'', quote_prefix = ''QUO'',
                         next_invoice_number = 1, next_quote_number = 1,
                         default_payment_terms = 30\<rparr>
        in (d\<lparr>companySettings_table := companySettings_table d @ [settings]\<rparr>, Inr settings))"

definition getCompanySettings :: "env \<Rightarrow> db \<Rightarrow> string \<Rightarrow> db \<times> (error + company_settings)" where
  "getCompanySettings e d companyId =
     (if fails e Settings_find then (d, Inl CompanyError)
      else
        (case find (\<lambda>s. company_id s = companyId) (companySettings_table d) of
           None \<Rightarrow> createDefaultSettings e d companyId
         | Some settings \<Rightarrow> (d, Inr settings)))"

definition getNextInvoiceNumber :: "env \<Rightarrow> db \<Rightarrow> string \<Rightarrow> db \<times> (error + string)" where
  "getNextInvoiceNumber e d companyId =
     (case getCompanySettings e d companyId of
        (d1, Inl err) \<Rightarrow> (d1, Inl CompanyError)
      | (d1, Inr settings) \<Rightarrow>
          (let nextNumber = next_invoice_number settings
           in if fails e Settings_update then (d1, Inl CompanyError)
              else
                (CompanyService_invalidateCache companyId
                   (d1\<lparr>companySettings_table :=
                         map (\<lambda>s. if company_id s = companyId
                                  then s\<lparr>next_invoice_number := nextNumber + 1\<rparr> else s)
                           (companySettings_table d1)\<rparr>),
                 Inr (invoice_prefix settings @ ''-'' @
                      padStart 4 (CHR ''0'') (toString nextNumber)))))"

definition getNextQuoteNumber :: "env \<Rightarrow> db \<Rightarrow> string \<Rightarrow> db \<times> (error + string)" where
  "getNextQuoteNumber e d companyId =
     (case getCompanySettings e d companyId of
        (d1, Inl err) \<Rightarrow> (d1, Inl CompanyError)
      | (d1, Inr settings) \<Rightarrow>
          (let nextNumber = next_quote_number settings
           in if fails e Settings_update then (d1, Inl CompanyError)
              else
                (CompanyService_invalidateCache companyId
                   (d1\<lparr>companySettings_table :=
                         map (\<lambda>s. if company_id s = companyId
                                  then s\<lparr>next_quote_number := nextNumber + 1\<rparr> else s)
                           (companySettings_table d1)\<rparr>),
                 Inr (quote_prefix settings @ ''-'' @
                      padStart 4 (CHR ''0'') (toString nextNumber)))))"

text \<open>
  Calls in sequence, each on the database that the previous one left: the numbers they
  return, in order, up to the first call that raises.
\<close>

fun invoice_numbers :: "env \<Rightarrow> db \<Rightarrow> string \<Rightarrow> nat \<Rightarrow> string list" where
  "invoice_numbers e d companyId 0 = []"
| "invoice_numbers e d companyId (Suc k) =
     (case getNextInvoiceNumber e d companyId of
        (d1, Inl err) \<Rightarrow> []
      | (d1, Inr number) \<Rightarrow> number # invoice_numbers e d1 companyId k)"

fun quote_numbers :: "env \<Rightarrow> db \<Rightarrow> string \<Rightarrow> nat \<Rightarrow> string list" where
  "quote_numbers e d companyId 0 = []"
| "quote_numbers e d companyId (Suc k) =
     (case getNextQuoteNumber e d companyId of
        (d1, Inl err) \<Rightarrow> []
      | (d1, Inr number) \<Rightarrow> number # quote_numbers e d1 companyId k)"

section \<open>Invoice lifecycle\<close>

text \<open>\<open>v || d\<close> on an optional string (the empty string is falsy), on two optional strings
  and on an optional integer.\<close>

definition str_or :: "string option \<Rightarrow> string \<Rightarrow> string" where
  "str_or v d = (case v of None \<Rightarrow> d | Some s \<Rightarrow> if s = [] then d else s)"

definition opt_str_or :: "string option \<Rightarrow> string option \<Rightarrow> string option" where
  "opt_str_or v d = (case v of None \<Rightarrow> d | Some s \<Rightarrow> if s = [] then d else Some s)"

definition int_or :: "int option \<Rightarrow> int \<Rightarrow> int" where
  "int_or v d = (case v of None \<Rightarrow> d | Some n \<Rightarrow> if n = 0 then d else n)"

text \<open>
  Prisma leaves a column unchanged when the update carries \<open>undefined\<close> for it:
  \<open>patch v old\<close> for a column that always holds a value, \<open>patch_opt v old\<close> for a nullable
  one.
\<close>

definition patch :: "'a option \<Rightarrow> 'a \<Rightarrow> 'a" where
  "patch v old = (case v of None \<Rightarrow> old | Some x \<Rightarrow> x)"

definition patch_opt :: "'a option \<Rightarrow> 'a option \<Rightarrow> 'a option" where
  "patch_opt v old = (case v of None \<Rightarrow> old | Some x \<Rightarrow> Some x)"

record create_invoice_request =
  cr_customer_id :: string
  cr_reference :: "string option"
  cr_invoice_date :: date
  cr_due_date :: date
  cr_discount_amount :: "real option"
  cr_discount_percentage :: "real option"
  cr_shipping_cost :: "real option"
  cr_currency :: "string option"
  cr_exchange_rate :: "real option"
  cr_conditions :: "string option"
  cr_notes :: "string option"
  cr_language :: "string option"
  cr_template_id :: "string option"
  cr_items :: "raw_item list"

text \<open>
  The patch of \<open>updateInvoice\<close>. \<open>up_amount_excluding_tax\<close> is not declared by
  \<open>IUpdateInvoiceRequest\<close>, but the status guard reads it from the request object. The
  items of a patch are taken with the fields the calculator multiplies present.
\<close>

record update_invoice_request =
  up_customer_id :: "string option"
  up_reference :: "string option"
  up_invoice_date :: "date option"
  up_due_date :: "date option"
  up_discount_amount :: "real option"
  up_discount_percentage :: "real option"
  up_shipping_cost :: "real option"
  up_status :: "string option"
  up_currency :: "string option"
  up_exchange_rate :: "real option"
  up_conditions :: "string option"
  up_notes :: "string option"
  up_language :: "string option"
  up_template_id :: "string option"
  up_items :: "raw_item list option"
  up_amount_excluding_tax :: "real option"

text \<open>
  The argument of \<open>createMany\<close> in \<open>createInvoice\<close> and \<open>updateInvoice\<close>:
  \<open>items.map((item, index) => ...)\<close>, the row identifiers being drawn from \<open>first_id\<close> on.
\<close>

definition invoice_item_rows :: "nat \<Rightarrow> nat \<Rightarrow> calc_item list \<Rightarrow> invoice_item list" where
  "invoice_item_rows first_id invoiceId its =
     map (\<lambda>(index, item).
            \<lparr>ii_item_id = first_id + index,
             ii_invoice_id = invoiceId,
             ii_product_id = product_id item,
             ii_name = name item,
             ii_description = description item,
             ii_quantity = quantity item,
             ii_unit = unit item,
             ii_unit_price_excluding_tax = unit_price_excluding_tax item,
             ii_discount_percentage = discount_percentage item,
             ii_discount_amount = discount_amount item,
             ii_vat_rate = vat_rate item,
             ii_total_excluding_tax = total_excluding_tax item,
             ii_total_including_tax = total_including_tax item,
             ii_sort_order = num_or (sort_order item) (real index)\<rparr>)
         (enumerate 0 its)"

text \<open>
  \<open>getInvoiceById\<close>. A cached copy is returned when there is one; otherwise the invoice is
  read with its items in \<open>sort_order\<close>, written to the cache and returned. The fields
  that the modelled operations read of the result, \<open>status\<close> and \<open>company_id\<close>, are strings
  in the object and in the copy alike, so the result carries no \<open>origin\<close>.
\<close>

definition getInvoiceById ::
  "env \<Rightarrow> step \<Rightarrow> db \<Rightarrow> nat \<Rightarrow> db \<times> (error + (invoice \<times> invoice_item list))" where
  "getInvoiceById e st d invoiceId =
     (let cacheKey = ''invoice:'' @ digits invoiceId
      in case cache_get_invoice cacheKey (cache d) of
           Some cached \<Rightarrow> (d, Inr cached)
         | None \<Rightarrow>
             if fails e st then (d, Inl InvoiceError)
             else
               (case find (\<lambda>i. invoice_id i = invoiceId) (invoice_table d) of
                  None \<Rightarrow> (d, Inl (NotFoundError ''Facture'' invoiceId))
                | Some invoice \<Rightarrow>
                    (let res = (invoice,
                                sort_key ii_sort_order
                                  (filter (\<lambda>r. ii_invoice_id r = invoiceId) (invoiceItem_table d)))
                     in (d\<lparr>cache := cache_set_invoice cacheKey res (cache d)\<rparr>, Inr res))))"

text \<open>
  The \<open>data\<close> of \<open>tx.invoice.create\<close> in \<open>createInvoice\<close>, as the row it makes: the
  identifier comes from the database, the status from the schema's default.
\<close>

definition invoice_create_data ::
  "env \<Rightarrow> nat \<Rightarrow> create_invoice_request \<Rightarrow> string \<Rightarrow> string \<Rightarrow> string \<Rightarrow> doc_totals \<Rightarrow> invoice" where
  "invoice_create_data e new_id data userId companyId invoiceNumber tot =
     \<lparr>invoice_id = new_id,
      inv_customer_id = cr_customer_id data,
      inv_user_id = userId,
      inv_company_id = companyId,
      invoice_number = invoiceNumber,
      inv_reference = cr_reference data,
      inv_invoice_date = cr_invoice_date data,
      inv_due_date = cr_due_date data,
      inv_amount_excluding_tax = totalExcludingTax tot,
      inv_tax = totalTax tot,
      inv_amount_including_tax = totalIncludingTax tot,
      inv_discount_amount = num_or (cr_discount_amount data) 0,
      inv_discount_percentage = cr_discount_percentage data,
      inv_shipping_cost = num_or (cr_shipping_cost data) 0,
      inv_status = default_invoice_status e,
      inv_currency = str_or (cr_currency data) ''EUR'',
      inv_exchange_rate = cr_exchange_rate data,
      inv_conditions = cr_conditions data,
      inv_notes = cr_notes data,
      inv_language = str_or (cr_language data) ''fr'',
      inv_template_id = cr_template_id data\<rparr>"

text \<open>
  \<open>createInvoice\<close>. Its \<open>catch\<close> turns every error into \<open>InvoiceError\<close>. The number is
  drawn before the transaction and outside it; the transaction writes the header and the
  item rows; the cache is invalidated and the invoice is then read back.
\<close>

definition createInvoice ::
  "env \<Rightarrow> db \<Rightarrow> create_invoice_request \<Rightarrow> string \<Rightarrow> string \<Rightarrow>
     db \<times> (error + (invoice \<times> invoice_item list))" where
  "createInvoice e d data userId companyId =
     (case getNextInvoiceNumber e d companyId of
        (d1, Inl err) \<Rightarrow> (d1, Inl InvoiceError)
      | (d1, Inr invoiceNumber) \<Rightarrow>
          (let calc = calculateInvoiceTotals (cr_items data)
           in if fails e Invoice_create then (d1, Inl InvoiceError)
              else
                (let newInvoice =
                       invoice_create_data e (next_id d1) data userId companyId invoiceNumber
                         (totals calc);
                     rows = invoice_item_rows (Suc (next_id d1)) (invoice_id newInvoice) (items calc);
                     d2 = d1\<lparr>invoice_table := invoice_table d1 @ [newInvoice],
                             invoiceItem_table := invoiceItem_table d1 @ rows,
                             next_id := Suc (next_id d1) + length rows\<rparr>;
                     d3 = InvoiceService_invalidateCache (invoice_id newInvoice) companyId d2
                 in (case getInvoiceById e Invoice_readback d3 (invoice_id newInvoice) of
                       (d4, Inl err) \<Rightarrow> (d4, Inl InvoiceError)
                     | (d4, Inr invoice) \<Rightarrow> (d4, Inr invoice)))))"

text \<open>
  \<open>updateInvoice\<close>. Its \<open>catch\<close> rethrows \<open>NotFoundError\<close> and \<open>InvoiceStatusError\<close> and
  turns every other error into \<open>InvoiceError\<close>.
\<close>

definition rethrow_invoice :: "error \<Rightarrow> error" where
  "rethrow_invoice err =
     (case err of
        NotFoundError what ident \<Rightarrow> err
      | InvoiceStatusError status action \<Rightarrow> err
      | _ \<Rightarrow> InvoiceError)"

text \<open>
  The \<open>data\<close> of \<open>tx.invoice.update\<close> in \<open>updateInvoice\<close>, applied to the stored row.
  \<open>tot\<close> is the local \<open>totals\<close>, left \<open>undefined\<close> when the patch has no items.
\<close>

definition invoice_update_data ::
  "update_invoice_request \<Rightarrow> doc_totals option \<Rightarrow> invoice \<Rightarrow> invoice" where
  "invoice_update_data data tot i =
     i\<lparr>inv_customer_id := patch (up_customer_id data) (inv_customer_id i),
       inv_reference := patch_opt (up_reference data) (inv_reference i),
       inv_invoice_date := patch (up_invoice_date data) (inv_invoice_date i),
       inv_due_date := patch (up_due_date data) (inv_due_date i),
       inv_amount_excluding_tax :=
         patch (map_option totalExcludingTax tot) (inv_amount_excluding_tax i),
       inv_tax := patch (map_option totalTax tot) (inv_tax i),
       inv_amount_including_tax :=
         patch (map_option totalIncludingTax tot) (inv_amount_including_tax i),
       inv_discount_amount := patch (up_discount_amount data) (inv_discount_amount i),
       inv_discount_percentage :=
         patch_opt (up_discount_percentage data) (inv_discount_percentage i),
       inv_shipping_cost := patch (up_shipping_cost data) (inv_shipping_cost i),
       inv_status := patch (up_status data) (inv_status i),
       inv_currency := patch (up_currency data) (inv_currency i),
       inv_exchange_rate := patch_opt (up_exchange_rate data) (inv_exchange_rate i),
       inv_conditions := patch_opt (up_conditions data) (inv_conditions i),
       inv_notes := patch_opt (up_notes data) (inv_notes i),
       inv_language := patch (up_language data) (inv_language i),
       inv_template_id := patch_opt (up_template_id data) (inv_template_id i)\<rparr>"

text \<open>
  The status guards read the invoice that \<open>getInvoiceById\<close> returned, the cached copy
  when there is one. The transaction then works on the database.
\<close>

definition updateInvoice ::
  "env \<Rightarrow> db \<Rightarrow> nat \<Rightarrow> update_invoice_request \<Rightarrow>
     db \<times> (error + (invoice \<times> invoice_item list))" where
  "updateInvoice e d invoiceId data =
     (case getInvoiceById e Invoice_find d invoiceId of
        (d0, Inl err) \<Rightarrow> (d0, Inl (rethrow_invoice err))
      | (d0, Inr (existingInvoice, existingItems)) \<Rightarrow>
          if inv_status existingInvoice = ''paid'' \<and>
             (up_items data \<noteq> None \<or> truthy (up_amount_excluding_tax data))
          then (d0, Inl (InvoiceStatusError (inv_status existingInvoice) ''modifier les montants''))
          else if inv_status existingInvoice = ''cancelled''
          then (d0, Inl (InvoiceStatusError (inv_status existingInvoice) ''modifier''))
          else
            (let calc = map_option calculateInvoiceTotals (up_items data);
                 tot = map_option totals calc;
                 its = map_option items calc
             in if fails e Invoice_update \<or>
                   find (\<lambda>i. invoice_id i = invoiceId) (invoice_table d0) = None
                then (d0, Inl InvoiceError)
                else
                  (let d1 = d0\<lparr>invoice_table :=
                                map (\<lambda>i. if invoice_id i = invoiceId
                                          then invoice_update_data data tot i else i)
                                  (invoice_table d0)\<rparr>;
                       d2 = (case its of
                               None \<Rightarrow> d1
                             | Some new_items \<Rightarrow>
                                 d1\<lparr>invoiceItem_table :=
                                      filter (\<lambda>r. ii_invoice_id r \<noteq> invoiceId) (invoiceItem_table d1) @
                                      invoice_item_rows (next_id d1) invoiceId new_items,
                                    next_id := next_id d1 + length new_items\<rparr>);
                       d3 = InvoiceService_invalidateCache invoiceId
                              (inv_company_id existingInvoice) d2
                   in (case getInvoiceById e Invoice_readback d3 invoiceId of
                         (d4, Inl err) \<Rightarrow> (d4, Inl (rethrow_invoice err))
                       | (d4, Inr invoice) \<Rightarrow> (d4, Inr invoice)))))"

section \<open>Quote lifecycle\<close>

record quote_conversion =
  cv_invoice_date :: "date option"
  cv_due_date :: "date option"
  cv_payment_terms :: "int option"
  cv_notes :: "string option"
  cv_keep_original_items :: bool
  cv_apply_current_prices :: bool

text \<open>
  \<open>getQuoteById\<close>. A cached copy is returned when there is one; otherwise the quote is
  read with its items in \<open>sort_order\<close>, written to the cache and returned. The result
  says which of the two it is, because the callers treat its dates and its decimal
  columns as objects.
\<close>

definition getQuoteById ::
  "env \<Rightarrow> step \<Rightarrow> db \<Rightarrow> nat \<Rightarrow> db \<times> (error + (origin \<times> quote \<times> quote_item list))" where
  "getQuoteById e st d quoteId =
     (let cacheKey = ''quote:'' @ digits quoteId
      in case cache_get_quote cacheKey (cache d) of
           Some (q, qitems) \<Rightarrow> (d, Inr (Cached, q, qitems))
         | None \<Rightarrow>
             if fails e st then (d, Inl QuoteError)
             else
               (case find (\<lambda>q. quote_id q = quoteId) (quote_table d) of
                  None \<Rightarrow> (d, Inl (NotFoundError ''Devis'' quoteId))
                | Some q \<Rightarrow>
                    (let qitems = sort_key qi_sort_order
                                    (filter (\<lambda>r. qi_quote_id r = quoteId) (quoteItem_table d))
                     in (d\<lparr>cache := cache_set_quote cacheKey (q, qitems) (cache d)\<rparr>,
                         Inr (Live, q, qitems)))))"

definition rethrow_quote :: "error \<Rightarrow> error" where
  "rethrow_quote err =
     (case err of
        NotFoundError what ident \<Rightarrow> err
      | QuoteStatusError status action \<Rightarrow> err
      | _ \<Rightarrow> QuoteError)"

text \<open>
  \<open>quote.validity_date < new Date()\<close>. On an object from Prisma both sides are dates
  and their time values are compared. In a cached copy \<open>validity_date\<close> is the ISO string
  that \<open>JSON.stringify\<close> wrote; the comparison turns it into a number, which gives \<open>NaN\<close>,
  and is false.
\<close>

definition validity_before :: "origin \<Rightarrow> date \<Rightarrow> date \<Rightarrow> bool" where
  "validity_before og validity_date now = (case og of Live \<Rightarrow> validity_date < now | Cached \<Rightarrow> False)"

text \<open>
  \<open>markAsAccepted\<close>. The clock is read twice: \<open>now_check\<close> is the reading compared with
  the validity date, \<open>now_write\<close> the one stored in \<open>accepted_at\<close>.
\<close>

definition markAsAccepted ::
  "env \<Rightarrow> db \<Rightarrow> nat \<Rightarrow> date \<Rightarrow> date \<Rightarrow> db \<times> (error + (quote \<times> quote_item list))" where
  "markAsAccepted e d quoteId now_check now_write =
     (case getQuoteById e Quote_find d quoteId of
        (d0, Inl err) \<Rightarrow> (d0, Inl (rethrow_quote err))
      | (d0, Inr (og, q, qitems)) \<Rightarrow>
          if q_status q = ''accepted''
          then (d0, Inl (QuoteStatusError (q_status q) ''marquer comme accepte''))
          else if validity_before og (q_validity_date q) now_check
          then (d0, Inl (QuoteStatusError ''expired'' ''accepter''))
          else if fails e Quote_update \<or>
                  find (\<lambda>r. quote_id r = quoteId) (quote_table d0) = None
          then (d0, Inl QuoteError)
          else
            (let d1 = d0\<lparr>quote_table :=
                          map (\<lambda>r. if quote_id r = quoteId
                                   then r\<lparr>q_status := ''accepted'', q_accepted_at := Some now_write\<rparr>
                                   else r)
                            (quote_table d0)\<rparr>;
                 d2 = QuoteService_invalidateCache quoteId (q_company_id q) d1
             in (case getQuoteById e Quote_readback d2 quoteId of
                   (d3, Inl err) \<Rightarrow> (d3, Inl (rethrow_quote err))
                 | (d3, Inr (og', res)) \<Rightarrow> (d3, Inr res))))"

text \<open>
  The request that \<open>convertToInvoice\<close> builds from the quote calls \<open>toNumber()\<close> on the
  decimal columns: \<open>quote.discount_amount?.toNumber()\<close> and the like on the quote,
  \<open>item.quantity.toNumber()\<close> and the like on every item. An object from Prisma holds
  decimals there. A cached copy holds what \<open>JSON.parse\<close> gives, which has no such method:
  the call raises \<open>TypeError\<close> unless the column is null and guarded by \<open>?.\<close>, and every
  item raises it at \<open>quantity\<close>.
\<close>

definition toNumber_raises :: "origin \<Rightarrow> quote \<Rightarrow> quote_item list \<Rightarrow> bool" where
  "toNumber_raises og q qitems =
     (case og of
        Live \<Rightarrow> False
      | Cached \<Rightarrow>
          q_discount_amount q \<noteq> None \<or> q_discount_percentage q \<noteq> None \<or>
          q_shipping_cost q \<noteq> None \<or> q_exchange_rate q \<noteq> None \<or> qitems \<noteq> [])"

text \<open>
  \<open>convertToInvoice\<close>. \<open>now_date\<close> is the reading of \<open>new Date()\<close> for the invoice date,
  \<open>now_ms\<close> that of \<open>Date.now()\<close> for the due date. The callback of the outer
  \<open>$transaction\<close> builds the request, calls \<open>invoiceService.createInvoice\<close>, which works
  on the global client in a transaction of its own, and only then updates the quote
  through \<open>tx\<close>: a failure of either step leaves the quote as it was, and whatever
  \<open>createInvoice\<close> has committed stays.
\<close>

definition conversion_items :: "quote_conversion \<Rightarrow> quote_item list \<Rightarrow> raw_item list" where
  "conversion_items conversionData qitems =
     map (\<lambda>item.
            \<lparr>product_id = qi_product_id item,
             name = Some (str_or (qi_name item) ''''),
             description = qi_description item,
             quantity = qi_quantity item,
             unit = qi_unit item,
             unit_price_excluding_tax =
               (if cv_apply_current_prices conversionData
                then qi_unit_price_excluding_tax item
                else qi_unit_price_excluding_tax item),
             discount_percentage = qi_discount_percentage item,
             discount_amount = qi_discount_amount item,
             vat_rate = qi_vat_rate item,
             sort_order = Some (qi_sort_order item)\<rparr>)
         qitems"

definition conversion_request ::
  "quote \<Rightarrow> quote_item list \<Rightarrow> quote_conversion \<Rightarrow> date \<Rightarrow> date \<Rightarrow> create_invoice_request" where
  "conversion_request q qitems conversionData now_date now_ms =
     \<lparr>cr_customer_id = q_customer_id q,
      cr_reference = None,
      cr_invoice_date = (case cv_invoice_date conversionData of Some dt \<Rightarrow> dt | None \<Rightarrow> now_date),
      cr_due_date =
        (case cv_due_date conversionData of
           Some dt \<Rightarrow> dt
         | None \<Rightarrow> now_ms + int_or (cv_payment_terms conversionData) 30 * 24 * 60 * 60 * 1000),
      cr_discount_amount = q_discount_amount q,
      cr_discount_percentage = q_discount_percentage q,
      cr_shipping_cost = q_shipping_cost q,
      cr_currency = Some (q_currency q),
      cr_exchange_rate = q_exchange_rate q,
      cr_conditions = q_conditions q,
      cr_notes = opt_str_or (cv_notes conversionData) (q_notes q),
      cr_language = Some (q_language q),
      cr_template_id = q_template_id q,
      cr_items = conversion_items conversionData qitems\<rparr>"

definition convertToInvoice ::
  "env \<Rightarrow> db \<Rightarrow> nat \<Rightarrow> quote_conversion \<Rightarrow> date \<Rightarrow> date \<Rightarrow>
     db \<times> (error + (quote \<times> (invoice \<times> invoice_item list)))" where
  "convertToInvoice e d quoteId conversionData now_date now_ms =
     (case getQuoteById e Quote_find d quoteId of
        (d0, Inl err) \<Rightarrow> (d0, Inl (rethrow_quote err))
      | (d0, Inr (og, q, qitems)) \<Rightarrow>
          if q_status q \<noteq> ''accepted''
          then (d0, Inl (QuoteStatusError (q_status q) ''convertir en facture''))
          else if q_converted_to_invoice q
          then (d0, Inl (QuoteStatusError ''already converted'' ''convertir a nouveau''))
          else if toNumber_raises og q qitems then (d0, Inl QuoteError)
          else
            (let invoiceData = conversion_request q qitems conversionData now_date now_ms
             in (case createInvoice e d0 invoiceData (q_user_id q) (q_company_id q) of
                   (d1, Inl err) \<Rightarrow> (d1, Inl QuoteError)
                 | (d1, Inr invoice) \<Rightarrow>
                     if fails e Quote_update then (d1, Inl QuoteError)
                     else
                       (case find (\<lambda>r. quote_id r = quoteId) (quote_table d1) of
                          None \<Rightarrow> (d1, Inl QuoteError)
                        | Some row \<Rightarrow>
                            (let updatedQuote =
                                   row\<lparr>q_status := ''converted'', q_converted_to_invoice := True,
                                       q_invoice_id := Some (invoice_id (fst invoice))\<rparr>;
                                 d2 = d1\<lparr>quote_table :=
                                         map (\<lambda>r. if quote_id r = quoteId
                                                  then r\<lparr>q_status := ''converted'',
                                                         q_converted_to_invoice := True,
                                                         q_invoice_id := Some (invoice_id (fst invoice))\<rparr>
                                                  else r)
                                           (quote_table d1)\<rparr>;
                                 d3 = QuoteService_invalidateCache quoteId (q_company_id q) d2
                             in (d3, Inr (updatedQuote, invoice)))))))"

text \<open>
  The due date of a conversion as the specification words it: the given date, else now
  plus the given payment terms in days, else now plus the default payment terms of the
  company's settings.
\<close>

definition spec_due_date :: "company_settings \<Rightarrow> quote_conversion \<Rightarrow> date \<Rightarrow> date" where
  "spec_due_date settings conversionData now_ms =
     (case cv_due_date conversionData of
        Some dt \<Rightarrow> dt
      | None \<Rightarrow>
          now_ms +
          (case cv_payment_terms conversionData of
             Some days \<Rightarrow> days
           | None \<Rightarrow> default_payment_terms settings) * 24 * 60 * 60 * 1000)"

section \<open>Sample data\<close>

text \<open>Concrete environments and databases on which the theorems are instantiated.\<close>

definition sample_env :: env where
  "sample_env = \<lparr>fails = (\<lambda>st. False), default_invoice_status = ''draft''\<rparr>"

definition empty_cache :: redis where
  "empty_cache = \<lparr>quote_entries = [], invoice_entries = []\<rparr>"

definition sample_settings :: company_settings where
  "sample_settings =
     \<lparr>company_id = ''c1'', invoice_prefix = ''INV'', quote_prefix = ''QUO'',
      next_invoice_number = 9999, next_quote_number = 7, default_payment_terms = 45\<rparr>"

definition settings_db :: db where
  "settings_db =
     \<lparr>companySettings_table = [sample_settings], invoice_table = [], invoiceItem_table = [],
      quote_table = [], quoteItem_table = [], next_id = 0, cache = empty_cache\<rparr>"

definition sample_quote :: quote where
  "sample_quote =
     \<lparr>quote_id = 10, q_customer_id = ''cust1'', q_user_id = ''u1'', q_company_id = ''c1'',
      q_validity_date = 1000, q_discount_amount = Some 0, q_discount_percentage = None,
      q_shipping_cost = Some 0, q_status = ''accepted'', q_currency = ''EUR'',
      q_exchange_rate = None, q_conditions = None, q_notes = None, q_language = ''fr'',
      q_template_id = None, q_accepted_at = Some 500, q_converted_to_invoice = False,
      q_invoice_id = None\<rparr>"

definition sample_quote_items :: "quote_item list" where
  "sample_quote_items =
     [\<lparr>qi_item_id = 11, qi_quote_id = 10, qi_product_id = None, qi_name = Some ''design'',
       qi_description = None, qi_quantity = 3, qi_unit = ''h'',
       qi_unit_price_excluding_tax = 100, qi_discount_percentage = None,
       qi_discount_amount = None, qi_vat_rate = ''STANDARD'', qi_sort_order = 0\<rparr>,
      \<lparr>qi_item_id = 12, qi_quote_id = 10, qi_product_id = None, qi_name = Some ''manual'',
       qi_description = None, qi_quantity = 1, qi_unit = ''pc'',
       qi_unit_price_excluding_tax = 50, qi_discount_percentage = None,
       qi_discount_amount = None, qi_vat_rate = ''REDUCED_2'', qi_sort_order = 1\<rparr>]"

definition sent_quote :: quote where
  "sent_quote = sample_quote\<lparr>q_status := ''sent'', q_accepted_at := None\<rparr>"

definition pending_quote :: quote where
  "pending_quote = sample_quote\<lparr>q_status := ''pending'', q_accepted_at := None\<rparr>"

definition converted_quote :: quote where
  "converted_quote = sample_quote\<lparr>q_converted_to_invoice := True, q_invoice_id := Some 5\<rparr>"

definition quote_db :: db where
  "quote_db =
     \<lparr>companySettings_table = [sample_settings], invoice_table = [], invoiceItem_table = [],
      quote_table = [sample_quote], quoteItem_table = sample_quote_items, next_id = 20,
      cache = empty_cache\<rparr>"

definition sent_quote_db :: db where
  "sent_quote_db = quote_db\<lparr>quote_table := [sent_quote]\<rparr>"

text \<open>A quote without items and without amounts of its own, accepted and not converted.\<close>

definition bare_quote :: quote where
  "bare_quote = sample_quote\<lparr>q_discount_amount := None, q_shipping_cost := None\<rparr>"

definition bare_quote_db :: db where
  "bare_quote_db = quote_db\<lparr>quote_table := [bare_quote], quoteItem_table := []\<rparr>"

definition sample_conversion :: quote_conversion where
  "sample_conversion =
     \<lparr>cv_invoice_date = None, cv_due_date = None, cv_payment_terms = None, cv_notes = None,
      cv_keep_original_items = True, cv_apply_current_prices = False\<rparr>"

text \<open>The environment in which only the read-back that closes \<open>createInvoice\<close> raises.\<close>

definition readback_fault_env :: env where
  "readback_fault_env =
     \<lparr>fails = (\<lambda>st. st = Invoice_readback), default_invoice_status = ''draft''\<rparr>"

definition draft_invoice :: invoice where
  "draft_invoice =
     \<lparr>invoice_id = 1, inv_customer_id = ''cust1'', inv_user_id = ''u1'', inv_company_id = ''c1'',
      invoice_number = ''INV-0001'', inv_reference = None, inv_invoice_date = 100,
      inv_due_date = 200, inv_amount_excluding_tax = 300, inv_tax = 60,
      inv_amount_including_tax = 360, inv_discount_amount = 0, inv_discount_percentage = None,
      inv_shipping_cost = 0, inv_status = ''draft'', inv_currency = ''EUR'',
      inv_exchange_rate = None, inv_conditions = None, inv_notes = None, inv_language = ''fr'',
      inv_template_id = None\<rparr>"

definition paid_invoice :: invoice where
  "paid_invoice = draft_invoice\<lparr>invoice_id := 2, invoice_number := ''INV-0002'', inv_status := ''paid''\<rparr>"

definition cancelled_invoice :: invoice where
  "cancelled_invoice =
     draft_invoice\<lparr>invoice_id := 3, invoice_number := ''INV-0003'', inv_status := ''cancelled''\<rparr>"

definition sample_invoice_item :: "nat \<Rightarrow> nat \<Rightarrow> invoice_item" where
  "sample_invoice_item ident owner =
     \<lparr>ii_item_id = ident, ii_invoice_id = owner, ii_product_id = None, ii_name = Some ''design'',
      ii_description = None, ii_quantity = 3, ii_unit = ''h'', ii_unit_price_excluding_tax = 100,
      ii_discount_percentage = None, ii_discount_amount = None, ii_vat_rate = ''STANDARD'',
      ii_total_excluding_tax = 300, ii_total_including_tax = 360, ii_sort_order = 0\<rparr>"

definition invoice_db :: db where
  "invoice_db =
     \<lparr>companySettings_table = [sample_settings],
      invoice_table = [draft_invoice, paid_invoice, cancelled_invoice],
      invoiceItem_table = [sample_invoice_item 4 1, sample_invoice_item 5 2, sample_invoice_item 6 3],
      quote_table = [], quoteItem_table = [], next_id = 7, cache = empty_cache\<rparr>"

definition empty_patch :: update_invoice_request where
  "empty_patch =
     \<lparr>up_customer_id = None, up_reference = None, up_invoice_date = None, up_due_date = None,
      up_discount_amount = None, up_discount_percentage = None, up_shipping_cost = None,
      up_status = None, up_currency = None, up_exchange_rate = None, up_conditions = None,
      up_notes = None, up_language = None, up_template_id = None, up_items = None,
      up_amount_excluding_tax = None\<rparr>"

definition sample_items :: "raw_item list" where
  "sample_items =
     [\<lparr>product_id = None, name = Some ''audit'', description = None, quantity = 2, unit = ''d'',
       unit_price_excluding_tax = 500, discount_percentage = Some 10, discount_amount = None,
       vat_rate = ''STANDARD'', sort_order = None\<rparr>,
      \<lparr>product_id = None, name = Some ''report'', description = None, quantity = 1, unit = ''pc'',
       unit_price_excluding_tax = 100, discount_percentage = None, discount_amount = None,
       vat_rate = ''REDUCED_3'', sort_order = None\<rparr>]"

section \<open>Properties of the monetary calculator\<close>

lemma truthy_Some [simp]: "truthy (Some x) = (x \<noteq> 0)"
  by (simp add: truthy_def)

lemma truthy_None [simp]: "truthy None = False"
  by (simp add: truthy_def)

lemma num_or_None [simp]: "num_or None d = d"
  by (simp add: num_or_def)

lemma num_or_Some [simp]: "num_or (Some x) d = (if x \<noteq> 0 then x else d)"
  by (simp add: num_or_def)

lemma num_or_zero: "num_or v 0 = (case v of None \<Rightarrow> 0 | Some a \<Rightarrow> a)"
  by (cases v) simp_all

text \<open>
  What \<open>getVatRateValue\<close> computes on every code: the four non-zero entries of the table,
  and 20 on every other string, the two zero-rated codes included.
\<close>

lemma InvoiceService_getVatRateValue_cases:
  "InvoiceService_getVatRateValue code =
     (if code = ''REDUCED_1'' then 2.1
      else if code = ''REDUCED_2'' then 5.5
      else if code = ''REDUCED_3'' then 10.0
      else 20.0)"
  by (simp add: InvoiceService_getVatRateValue_def InvoiceService_rates_def)

lemma QuoteService_getVatRateValue_cases:
  "QuoteService_getVatRateValue code =
     (if code = ''REDUCED_1'' then 2.1
      else if code = ''REDUCED_2'' then 5.5
      else if code = ''REDUCED_3'' then 10.0
      else 20.0)"
  by (simp add: QuoteService_getVatRateValue_def QuoteService_rates_def)

text \<open>
  C1 (the code departs from the claim). The claim: \<open>getVatRateValue\<close> returns the table's
  value on each of the six codes, so 0 on \<open>ZERO\<close> and on \<open>EXPORT\<close>, and 20 on any other
  code. In both services \<open>rates[vatRate] || 20.0\<close> reads the table's 0 as falsy: on
  \<open>ZERO\<close> and on \<open>EXPORT\<close> the method returns 20, where its own table says 0.
\<close>

theorem getVatRateValue_zero_rated_is_20:
  "InvoiceService_getVatRateValue ''ZERO'' = 20 \<and> spec_vat_table ''ZERO'' = 0 \<and>
   InvoiceService_getVatRateValue ''EXPORT'' = 20 \<and> spec_vat_table ''EXPORT'' = 0 \<and>
   QuoteService_getVatRateValue ''ZERO'' = 20 \<and>
   QuoteService_getVatRateValue ''EXPORT'' = 20"
  by (simp add: InvoiceService_getVatRateValue_cases QuoteService_getVatRateValue_cases
      spec_vat_table_def)

lemma InvoiceService_item_total_excluding_tax:
  "total_excluding_tax (InvoiceService_item item) =
     quantity item * unit_price_excluding_tax item -
       (if truthy (discount_percentage item)
        then quantity item * unit_price_excluding_tax item * the (discount_percentage item) / 100
        else num_or (discount_amount item) 0)"
  by (simp add: InvoiceService_item_def Let_def raw_item.defs calc_item.defs)

lemma QuoteService_item_total_excluding_tax:
  "total_excluding_tax (QuoteService_item item) =
     quantity item * unit_price_excluding_tax item -
       (if truthy (discount_percentage item)
        then quantity item * unit_price_excluding_tax item * the (discount_percentage item) / 100
        else num_or (discount_amount item) 0)"
  by (simp add: QuoteService_item_def Let_def raw_item.defs calc_item.defs)

lemma items_calculateInvoiceTotals:
  "items (calculateInvoiceTotals xs) = map InvoiceService_item xs"
  by (simp add: calculateInvoiceTotals_def Let_def)

lemma items_calculateQuoteTotals:
  "items (calculateQuoteTotals xs) = map QuoteService_item xs"
  by (simp add: calculateQuoteTotals_def Let_def)

text \<open>
  C8 as stated fails: a line whose \<open>discount_percentage\<close> is set to 0 and whose
  \<open>discount_amount\<close> is 5 has the amount subtracted, because the calculator tests the
  percentage for truthiness, not for presence. One unit at 10: the code yields 5 excluding
  tax, the claim 10.
\<close>

theorem discount_percentage_zero_counterexample:
  "map total_excluding_tax
     (items (calculateInvoiceTotals
        [\<lparr>product_id = None, name = Some ''a'', description = None, quantity = 1,
          unit = ''u'', unit_price_excluding_tax = 10, discount_percentage = Some 0,
          discount_amount = Some 5, vat_rate = ''STANDARD'', sort_order = None\<rparr>])) = [5] \<and>
   map total_excluding_tax
     (items (calculateQuoteTotals
        [\<lparr>product_id = None, name = Some ''a'', description = None, quantity = 1,
          unit = ''u'', unit_price_excluding_tax = 10, discount_percentage = Some 0,
          discount_amount = Some 5, vat_rate = ''STANDARD'', sort_order = None\<rparr>])) = [5] \<and>
   map (\<lambda>item. quantity item * unit_price_excluding_tax item - spec_discount item)
        [\<lparr>product_id = None, name = Some ''a'', description = None, quantity = 1,
          unit = ''u'', unit_price_excluding_tax = 10, discount_percentage = Some 0,
          discount_amount = Some 5, vat_rate = ''STANDARD'', sort_order = None\<rparr>] = [10]"
  by (simp add: items_calculateInvoiceTotals items_calculateQuoteTotals
      InvoiceService_item_total_excluding_tax QuoteService_item_total_excluding_tax
      spec_discount_def)

text \<open>
  C8 (amended). For every line item of the list given to either calculator: when
  \<open>discount_percentage\<close> is set and not zero, the discount is
  \<open>line_total \<times> discount_percentage / 100\<close> whatever \<open>discount_amount\<close> holds; when
  \<open>discount_percentage\<close> is absent or zero, the discount is the explicit
  \<open>discount_amount\<close> (0 when that is absent). The two are never summed.
\<close>

theorem discount_percentage_precedence:
  assumes "i < length xs"
  shows "(discount_percentage (xs ! i) = Some p \<and> p \<noteq> 0 \<longrightarrow>
            total_excluding_tax (items (calculateInvoiceTotals xs) ! i) =
              quantity (xs ! i) * unit_price_excluding_tax (xs ! i) -
              quantity (xs ! i) * unit_price_excluding_tax (xs ! i) * p / 100 \<and>
            total_excluding_tax (items (calculateQuoteTotals xs) ! i) =
              quantity (xs ! i) * unit_price_excluding_tax (xs ! i) -
              quantity (xs ! i) * unit_price_excluding_tax (xs ! i) * p / 100) \<and>
         (discount_percentage (xs ! i) = None \<or> discount_percentage (xs ! i) = Some 0 \<longrightarrow>
            total_excluding_tax (items (calculateInvoiceTotals xs) ! i) =
              quantity (xs ! i) * unit_price_excluding_tax (xs ! i) -
              (case discount_amount (xs ! i) of None \<Rightarrow> 0 | Some a \<Rightarrow> a) \<and>
            total_excluding_tax (items (calculateQuoteTotals xs) ! i) =
              quantity (xs ! i) * unit_price_excluding_tax (xs ! i) -
              (case discount_amount (xs ! i) of None \<Rightarrow> 0 | Some a \<Rightarrow> a))"
  using assms
  by (auto simp: items_calculateInvoiceTotals items_calculateQuoteTotals
      InvoiceService_item_total_excluding_tax QuoteService_item_total_excluding_tax
      num_or_zero)

theorem discount_percentage_precedence_witness:
  "total_excluding_tax
     (items (calculateInvoiceTotals
        [\<lparr>product_id = None, name = Some ''a'', description = None, quantity = 2,
          unit = ''u'', unit_price_excluding_tax = 50, discount_percentage = Some 10,
          discount_amount = Some 5, vat_rate = ''STANDARD'', sort_order = None\<rparr>]) ! 0) = 90 \<and>
   total_excluding_tax
     (items (calculateQuoteTotals
        [\<lparr>product_id = None, name = Some ''a'', description = None, quantity = 2,
          unit = ''u'', unit_price_excluding_tax = 50, discount_percentage = None,
          discount_amount = Some 5, vat_rate = ''STANDARD'', sort_order = None\<rparr>]) ! 0) = 95"
  using discount_percentage_precedence [of 0
      "[\<lparr>product_id = None, name = Some ''a'', description = None, quantity = 2,
          unit = ''u'', unit_price_excluding_tax = 50, discount_percentage = Some 10,
          discount_amount = Some 5, vat_rate = ''STANDARD'', sort_order = None\<rparr>]" 10]
    discount_percentage_precedence [of 0
      "[\<lparr>product_id = None, name = Some ''a'', description = None, quantity = 2,
          unit = ''u'', unit_price_excluding_tax = 50, discount_percentage = None,
          discount_amount = Some 5, vat_rate = ''STANDARD'', sort_order = None\<rparr>]" 0]
  by simp

lemma getVatRateValue_agree:
  "InvoiceService_getVatRateValue code = QuoteService_getVatRateValue code"
  by (simp add: InvoiceService_getVatRateValue_cases QuoteService_getVatRateValue_cases)

lemma item_agree: "InvoiceService_item = QuoteService_item"
  by (rule ext) (simp add: InvoiceService_item_def QuoteService_item_def getVatRateValue_agree)

text \<open>
  C10. The totals calculation of the invoice service and that of the quote service are
  the same function: on every list of raw line items they return the same computed items
  (so the same \<open>total_excluding_tax\<close> and \<open>total_including_tax\<close> per item) and the same
  document totals, and the two \<open>getVatRateValue\<close> helpers agree on every VAT code.
\<close>

theorem calculateInvoiceTotals_eq_calculateQuoteTotals:
  "calculateInvoiceTotals xs = calculateQuoteTotals xs \<and>
   map total_excluding_tax (items (calculateInvoiceTotals xs)) =
     map total_excluding_tax (items (calculateQuoteTotals xs)) \<and>
   map total_including_tax (items (calculateInvoiceTotals xs)) =
     map total_including_tax (items (calculateQuoteTotals xs)) \<and>
   totals (calculateInvoiceTotals xs) = totals (calculateQuoteTotals xs) \<and>
   InvoiceService_getVatRateValue code = QuoteService_getVatRateValue code"
proof -
  have "calculateInvoiceTotals xs = calculateQuoteTotals xs"
    by (simp add: calculateInvoiceTotals_def calculateQuoteTotals_def item_agree)
  then show ?thesis
    by (simp add: getVatRateValue_agree)
qed

section \<open>Properties of the cache\<close>

text \<open>Invalidation touches the Redis store only, and it only deletes.\<close>

lemma CompanyService_invalidateCache_tables [simp]:
  "companySettings_table (CompanyService_invalidateCache c d) = companySettings_table d"
  "invoice_table (CompanyService_invalidateCache c d) = invoice_table d"
  "invoiceItem_table (CompanyService_invalidateCache c d) = invoiceItem_table d"
  "quote_table (CompanyService_invalidateCache c d) = quote_table d"
  "quoteItem_table (CompanyService_invalidateCache c d) = quoteItem_table d"
  "next_id (CompanyService_invalidateCache c d) = next_id d"
  by (simp_all add: CompanyService_invalidateCache_def)

lemma InvoiceService_invalidateCache_tables [simp]:
  "companySettings_table (InvoiceService_invalidateCache i c d) = companySettings_table d"
  "invoice_table (InvoiceService_invalidateCache i c d) = invoice_table d"
  "invoiceItem_table (InvoiceService_invalidateCache i c d) = invoiceItem_table d"
  "quote_table (InvoiceService_invalidateCache i c d) = quote_table d"
  "quoteItem_table (InvoiceService_invalidateCache i c d) = quoteItem_table d"
  "next_id (InvoiceService_invalidateCache i c d) = next_id d"
  by (simp_all add: InvoiceService_invalidateCache_def)

lemma QuoteService_invalidateCache_tables [simp]:
  "companySettings_table (QuoteService_invalidateCache q c d) = companySettings_table d"
  "invoice_table (QuoteService_invalidateCache q c d) = invoice_table d"
  "invoiceItem_table (QuoteService_invalidateCache q c d) = invoiceItem_table d"
  "quote_table (QuoteService_invalidateCache q c d) = quote_table d"
  "quoteItem_table (QuoteService_invalidateCache q c d) = quoteItem_table d"
  "next_id (QuoteService_invalidateCache q c d) = next_id d"
  by (simp_all add: QuoteService_invalidateCache_def)

lemma map_of_filter_None: "map_of xs k = None \<Longrightarrow> map_of (filter P xs) k = None"
  by (induction xs) auto

lemma delPattern_invoice_None:
  "cache_get_invoice k r = None \<Longrightarrow> cache_get_invoice k (delPattern p r) = None"
  by (simp add: cache_get_invoice_def delPattern_def client_del_def Let_def map_of_filter_None)

lemma delPattern_quote_None:
  "cache_get_quote k r = None \<Longrightarrow> cache_get_quote k (delPattern p r) = None"
  by (simp add: cache_get_quote_def delPattern_def client_del_def Let_def map_of_filter_None)

lemma CompanyService_invalidateCache_invoice_None:
  "cache_get_invoice k (cache d) = None \<Longrightarrow>
   cache_get_invoice k (cache (CompanyService_invalidateCache c d)) = None"
  by (simp add: CompanyService_invalidateCache_def invalidateListCache_def invalidateStats_def
      invalidateCompany_def delPattern_invoice_None)

lemma InvoiceService_invalidateCache_invoice_None:
  "cache_get_invoice k (cache d) = None \<Longrightarrow>
   cache_get_invoice k (cache (InvoiceService_invalidateCache i c d)) = None"
  by (simp add: InvoiceService_invalidateCache_def invalidateListCache_def invalidateStats_def
      invalidateInvoice_def delPattern_invoice_None)

lemma QuoteService_invalidateCache_quote_None:
  "cache_get_quote k (cache d) = None \<Longrightarrow>
   cache_get_quote k (cache (QuoteService_invalidateCache q c d)) = None"
  by (simp add: QuoteService_invalidateCache_def invalidateListCache_def invalidateStats_def
      invalidateQuote_def delPattern_quote_None)

text \<open>
  \<open>KEYS\<close> answers the keys with their prefix, and \<open>DEL\<close> puts the prefix in front of each
  once more. In a store whose keys are the ones the services write, the keys that \<open>DEL\<close>
  gets do not exist, and no invalidation deletes anything.
\<close>

lemma client_del_well_keyed:
  assumes "well_keyed r" and "set ks \<subseteq> set (map fst (quote_entries r) @ map fst (invoice_entries r))"
  shows "client_del ks r = r"
proof -
  have key: "\<And>k. k \<in> set (map fst (quote_entries r) @ map fst (invoice_entries r)) \<Longrightarrow>
             k \<notin> set (map (\<lambda>k. keyPrefix @ k) ks)"
  proof
    fix k
    assume k: "k \<in> set (map fst (quote_entries r) @ map fst (invoice_entries r))"
      and "k \<in> set (map (\<lambda>k. keyPrefix @ k) ks)"
    then obtain k' where k': "k' \<in> set ks" "k = keyPrefix @ k'"
      by auto
    from k' assms(2) have "k' \<in> set (map fst (quote_entries r) @ map fst (invoice_entries r))"
      by auto
    with assms(1) have "take (length keyPrefix) k' = keyPrefix"
      unfolding well_keyed_def list_all_iff by blast
    moreover from k assms(1) have "take (length keyPrefix) (drop (length keyPrefix) k) \<noteq> keyPrefix"
      unfolding well_keyed_def list_all_iff by blast
    ultimately show False
      using k'(2) by simp
  qed
  have q: "filter (\<lambda>ent. fst ent \<notin> set (map (\<lambda>k. keyPrefix @ k) ks)) (quote_entries r) = quote_entries r"
    using key by (intro filter_True) auto
  have i: "filter (\<lambda>ent. fst ent \<notin> set (map (\<lambda>k. keyPrefix @ k) ks)) (invoice_entries r) = invoice_entries r"
    using key by (intro filter_True) auto
  show ?thesis
    unfolding client_del_def q i by simp
qed

lemma delPattern_well_keyed: "well_keyed r \<Longrightarrow> delPattern p r = r"
proof -
  assume w: "well_keyed r"
  have "set (client_keys p r) \<subseteq> set (map fst (quote_entries r) @ map fst (invoice_entries r))"
    unfolding client_keys_def by (rule filter_is_subset)
  with w have "client_del (client_keys p r) r = r"
    by (rule client_del_well_keyed)
  then show ?thesis
    unfolding delPattern_def Let_def by simp
qed

lemma CompanyService_invalidateCache_well_keyed:
  "well_keyed (cache d) \<Longrightarrow> CompanyService_invalidateCache c d = d"
  by (simp add: CompanyService_invalidateCache_def invalidateListCache_def invalidateStats_def
      invalidateCompany_def delPattern_well_keyed)

lemma InvoiceService_invalidateCache_well_keyed:
  "well_keyed (cache d) \<Longrightarrow> InvoiceService_invalidateCache i c d = d"
  by (simp add: InvoiceService_invalidateCache_def invalidateListCache_def invalidateStats_def
      invalidateInvoice_def delPattern_well_keyed)

lemma QuoteService_invalidateCache_well_keyed:
  "well_keyed (cache d) \<Longrightarrow> QuoteService_invalidateCache q c d = d"
  by (simp add: QuoteService_invalidateCache_def invalidateListCache_def invalidateStats_def
      invalidateQuote_def delPattern_well_keyed)

lemma well_keyed_cache_set_quote:
  "well_keyed r \<Longrightarrow> well_keyed (cache_set_quote (''quote:'' @ s) v r)"
  by (auto simp add: well_keyed_def cache_set_quote_def keyPrefix_def list_all_iff)

lemma well_keyed_cache_set_invoice:
  "well_keyed r \<Longrightarrow> well_keyed (cache_set_invoice (''invoice:'' @ s) v r)"
  by (auto simp add: well_keyed_def cache_set_invoice_def keyPrefix_def list_all_iff)

lemma well_keyed_empty_cache: "well_keyed empty_cache"
  by (simp add: well_keyed_def empty_cache_def)

lemma cache_get_set_quote: "cache_get_quote k (cache_set_quote k v r) = Some v"
  by (simp add: cache_get_quote_def cache_set_quote_def)

lemma cache_get_set_invoice: "cache_get_invoice k (cache_set_invoice k v r) = Some v"
  by (simp add: cache_get_invoice_def cache_set_invoice_def)

lemma cache_get_invoice_set_quote [simp]:
  "cache_get_invoice k (cache_set_quote k' v r) = cache_get_invoice k r"
  by (simp add: cache_get_invoice_def cache_set_quote_def)

lemma cache_get_quote_set_invoice [simp]:
  "cache_get_quote k (cache_set_invoice k' v r) = cache_get_quote k r"
  by (simp add: cache_get_quote_def cache_set_invoice_def)

section \<open>Properties of the sequence generator\<close>

lemma distinct_digit_chars: "distinct ''0123456789''"
  by simp

lemma digit_char_inj: "a < 10 \<Longrightarrow> b < 10 \<Longrightarrow> digit_char a = digit_char b \<Longrightarrow> a = b"
  unfolding digit_char_def
  using nth_eq_iff_index_eq [OF distinct_digit_chars, of a b] by simp

lemma digit_char_in: "a < 10 \<Longrightarrow> digit_char a \<in> set ''0123456789''"
  unfolding digit_char_def by (rule nth_mem) simp

lemma digit_char_0: "digit_char 0 = CHR ''0''"
  by (simp add: digit_char_def)

lemma digit_char_zero: "a < 10 \<Longrightarrow> digit_char a = CHR ''0'' \<Longrightarrow> a = 0"
  using digit_char_inj [of a 0] by (simp add: digit_char_0)

lemma digits_small: "n < 10 \<Longrightarrow> digits n = [digit_char n]"
  using digits.simps [of n] by (simp only: if_True)

lemma digits_large: "\<not> n < 10 \<Longrightarrow> digits n = digits (n div 10) @ [digit_char (n mod 10)]"
  using digits.simps [of n] by (simp only: if_False)

lemma digits_not_Nil: "digits n \<noteq> []"
proof (cases "n < 10")
  case True
  then show ?thesis by (subst digits_small) simp_all
next
  case False
  then show ?thesis by (subst digits_large) simp_all
qed

lemma length_digits_large:
  assumes "\<not> n < 10"
  shows "2 \<le> length (digits n)"
proof -
  have "length (digits n) = Suc (length (digits (n div 10)))"
    by (subst digits_large [OF assms]) simp
  moreover have "0 < length (digits (n div 10))"
    using digits_not_Nil [of "n div 10"] by simp
  ultimately show ?thesis by arith
qed


lemma set_digits: "set (digits n) \<subseteq> set ''0123456789''"
proof (induction n rule: digits.induct)
  case (1 n)
  show ?case
  proof (cases "n < 10")
    case True
    then show ?thesis using digit_char_in [of n] by (subst digits_small) simp_all
  next
    case False
    have "digit_char (n mod 10) \<in> set ''0123456789''" by (rule digit_char_in) simp
    moreover have "set (digits (n div 10)) \<subseteq> set ''0123456789''" using 1 False by simp
    ultimately show ?thesis by (subst digits_large [OF False]) simp
  qed
qed

lemma digits_inj: "digits n = digits m \<Longrightarrow> n = m"
proof (induction n arbitrary: m rule: digits.induct)
  case (1 n)
  from "1.prems" have len: "length (digits n) = length (digits m)" by simp
  show ?case
  proof (cases "n < 10")
    case True
    note ns = True
    show ?thesis
    proof (cases "m < 10")
      case True
      from "1.prems" have "digit_char n = digit_char m"
        by (simp add: digits_small [OF ns] digits_small [OF True])
      with ns True show ?thesis by (rule digit_char_inj)
    next
      case False
      from len length_digits_large [OF False] show ?thesis
        by (simp add: digits_small [OF ns])
    qed
  next
    case False
    note nl = False
    show ?thesis
    proof (cases "m < 10")
      case True
      from len length_digits_large [OF nl] show ?thesis
        by (simp add: digits_small [OF True])
    next
      case False
      from "1.prems" have "digits (n div 10) @ [digit_char (n mod 10)] =
          digits (m div 10) @ [digit_char (m mod 10)]"
        by (simp only: digits_large [OF nl] digits_large [OF False])
      then have eq: "digits (n div 10) = digits (m div 10)"
        and dc: "digit_char (n mod 10) = digit_char (m mod 10)"
        by simp_all
      from "1.IH" [OF nl eq] have "n div 10 = m div 10" .
      moreover have "n mod 10 = m mod 10"
        by (rule digit_char_inj [OF _ _ dc]) simp_all
      ultimately show ?thesis by (metis div_mult_mod_eq)
    qed
  qed
qed

lemma hd_digits: "0 < n \<Longrightarrow> hd (digits n) \<noteq> CHR ''0''"
proof (induction n rule: digits.induct)
  case (1 n)
  show ?case
  proof (cases "n < 10")
    case True
    with "1.prems" digit_char_zero [of n] show ?thesis
      by (auto simp: digits_small [OF True])
  next
    case False
    then have "0 < n div 10" by simp
    with "1.IH" [OF False] have "hd (digits (n div 10)) \<noteq> CHR ''0''" .
    then show ?thesis
      by (simp add: digits_large [OF False] digits_not_Nil)
  qed
qed


lemma toString_not_Nil: "toString a \<noteq> []"
  by (simp add: toString_def digits_not_Nil)

lemma toString_inj: "toString a = toString b \<Longrightarrow> a = b"
proof -
  assume eq: "toString a = toString b"
  have minus: "CHR ''-'' \<notin> set (digits n)" for n
    using set_digits [of n] by auto
  show ?thesis
  proof (cases "a < 0")
    case True
    note an = True
    show ?thesis
    proof (cases "b < 0")
      case True
      with an eq have "digits (nat (- a)) = digits (nat (- b))" by (simp add: toString_def)
      then have "nat (- a) = nat (- b)" by (rule digits_inj)
      with an True show ?thesis by simp
    next
      case False
      with an eq have "digits (nat b) = CHR ''-'' # digits (nat (- a))"
        by (simp add: toString_def)
      then have "CHR ''-'' \<in> set (digits (nat b))" by simp
      with minus show ?thesis by simp
    qed
  next
    case False
    note ap = False
    show ?thesis
    proof (cases "b < 0")
      case True
      with ap eq have "digits (nat a) = CHR ''-'' # digits (nat (- b))"
        by (simp add: toString_def)
      then have "CHR ''-'' \<in> set (digits (nat a))" by simp
      with minus show ?thesis by simp
    next
      case False
      with ap eq have "digits (nat a) = digits (nat b)" by (simp add: toString_def)
      then have "nat a = nat b" by (rule digits_inj)
      with ap False show ?thesis by simp
    qed
  qed
qed

lemma dropWhile_replicate_append: "P x \<Longrightarrow> dropWhile P (replicate n x @ s) = dropWhile P s"
  by (induction n) simp_all

lemma strip_padStart:
  "dropWhile (\<lambda>c. c = CHR ''0'') (padStart k (CHR ''0'') s) = dropWhile (\<lambda>c. c = CHR ''0'') s"
  by (simp add: padStart_def dropWhile_replicate_append)

lemma strip_toString:
  "dropWhile (\<lambda>c. c = CHR ''0'') (toString a) = (if a = 0 then [] else toString a)"
proof (cases "a < 0")
  case True
  then show ?thesis by (simp add: toString_def)
next
  case False
  show ?thesis
  proof (cases "a = 0")
    case True
    then show ?thesis by (simp add: toString_def digits_small digit_char_0)
  next
    case False
    with \<open>\<not> a < 0\<close> have pos: "0 < nat a" by simp
    from hd_digits [OF pos] digits_not_Nil [of "nat a"]
    have "dropWhile (\<lambda>c. c = CHR ''0'') (digits (nat a)) = digits (nat a)"
      by (cases "digits (nat a)") simp_all
    with False \<open>\<not> a < 0\<close> show ?thesis by (simp add: toString_def)
  qed
qed

lemma padStart_toString_inj:
  assumes "padStart k (CHR ''0'') (toString a) = padStart k (CHR ''0'') (toString b)"
  shows "a = b"
proof -
  from assms have "dropWhile (\<lambda>c. c = CHR ''0'') (padStart k (CHR ''0'') (toString a)) =
      dropWhile (\<lambda>c. c = CHR ''0'') (padStart k (CHR ''0'') (toString b))" by simp
  then have "(if a = 0 then [] else toString a) = (if b = 0 then [] else toString b)"
    by (simp only: strip_padStart strip_toString)
  then show ?thesis
    using toString_not_Nil [of a] toString_not_Nil [of b] toString_inj [of a b]
    by (auto split: if_splits)
qed

lemma length_padStart: "length (padStart k c s) = max k (length s)"
  by (simp add: padStart_def)

lemma padStart_toString_nonneg:
  "0 \<le> n \<Longrightarrow> padStart 4 (CHR ''0'') (toString n) =
     replicate (4 - length (digits (nat n))) (CHR ''0'') @ digits (nat n)"
  by (simp add: padStart_def toString_def)

lemma find_map_key:
  assumes "\<And>r. key (f r) = key r"
  shows "find (\<lambda>r. key r = k) (map (\<lambda>r. if key r = k then f r else r) xs) =
         map_option f (find (\<lambda>r. key r = k) xs)"
  by (induction xs) (simp_all add: assms)

lemma getCompanySettings_found:
  assumes "find (\<lambda>s. company_id s = c) (companySettings_table d) = Some s"
    and "\<not> fails e Settings_find"
  shows "getCompanySettings e d c = (d, Inr s)"
  using assms by (simp add: getCompanySettings_def)

lemma getNextInvoiceNumber_found:
  assumes "find (\<lambda>s. company_id s = c) (companySettings_table d) = Some s"
    and "\<not> fails e Settings_find" and "\<not> fails e Settings_update"
  shows "getNextInvoiceNumber e d c =
     (CompanyService_invalidateCache c
        (d\<lparr>companySettings_table :=
             map (\<lambda>r. if company_id r = c
                      then r\<lparr>next_invoice_number := next_invoice_number s + 1\<rparr> else r)
               (companySettings_table d)\<rparr>),
      Inr (invoice_prefix s @ ''-'' @ padStart 4 (CHR ''0'') (toString (next_invoice_number s))))"
  using assms by (simp add: getNextInvoiceNumber_def getCompanySettings_found Let_def)

lemma find_after_getNextInvoiceNumber:
  assumes "find (\<lambda>s. company_id s = c) (companySettings_table d) = Some s"
    and "\<not> fails e Settings_find" and "\<not> fails e Settings_update"
  shows "find (\<lambda>s. company_id s = c)
           (companySettings_table (fst (getNextInvoiceNumber e d c))) =
         Some (s\<lparr>next_invoice_number := next_invoice_number s + 1\<rparr>)"
  using assms(1)
  by (simp add: getNextInvoiceNumber_found [OF assms]
      find_map_key [where key = company_id and f = "\<lambda>r. r\<lparr>next_invoice_number := next_invoice_number s + 1\<rparr>"])

lemma invoice_numbers_found:
  assumes "find (\<lambda>s. company_id s = c) (companySettings_table d) = Some s"
    and "\<not> fails e Settings_find" and "\<not> fails e Settings_update"
  shows "invoice_numbers e d c k =
     map (\<lambda>i. invoice_prefix s @ ''-'' @
               padStart 4 (CHR ''0'') (toString (next_invoice_number s + int i))) [0..<k]"
  using assms(1)
proof (induction k arbitrary: d s)
  case 0
  show ?case by simp
next
  case (Suc k)
  let ?d1 = "fst (getNextInvoiceNumber e d c)"
  let ?s1 = "s\<lparr>next_invoice_number := next_invoice_number s + 1\<rparr>"
  have f1: "find (\<lambda>s. company_id s = c) (companySettings_table ?d1) = Some ?s1"
    by (rule find_after_getNextInvoiceNumber [OF Suc.prems assms(2,3)])
  have step: "invoice_numbers e d c (Suc k) =
      (invoice_prefix s @ ''-'' @ padStart 4 (CHR ''0'') (toString (next_invoice_number s))) #
      invoice_numbers e ?d1 c k"
    by (simp add: getNextInvoiceNumber_found [OF Suc.prems assms(2,3)])
  have "invoice_numbers e ?d1 c k =
      map (\<lambda>i. invoice_prefix s @ ''-'' @
               padStart 4 (CHR ''0'') (toString (next_invoice_number s + 1 + int i))) [0..<k]"
    using Suc.IH [OF f1] by simp
  also have "\<dots> = map (\<lambda>i. invoice_prefix s @ ''-'' @
               padStart 4 (CHR ''0'') (toString (next_invoice_number s + int i))) (map Suc [0..<k])"
    by (simp add: comp_def ac_simps)
  finally show ?case
    unfolding step by (simp add: upt_conv_Cons map_Suc_upt del: upt_Suc)
qed

lemma distinct_numbers:
  "distinct (map (\<lambda>i. p @ ''-'' @ padStart 4 (CHR ''0'') (toString (n + int i))) [0..<k])"
proof -
  have "inj_on (\<lambda>i. p @ ''-'' @ padStart 4 (CHR ''0'') (toString (n + int i))) (set [0..<k])"
  proof (rule inj_onI)
    fix i j
    assume "p @ ''-'' @ padStart 4 (CHR ''0'') (toString (n + int i)) =
            p @ ''-'' @ padStart 4 (CHR ''0'') (toString (n + int j))"
    then have "padStart 4 (CHR ''0'') (toString (n + int i)) =
               padStart 4 (CHR ''0'') (toString (n + int j))" by simp
    then have "n + int i = n + int j" by (rule padStart_toString_inj)
    then show "i = j" by simp
  qed
  then show ?thesis by (simp add: distinct_map)
qed

lemma getNextQuoteNumber_found:
  assumes "find (\<lambda>s. company_id s = c) (companySettings_table d) = Some s"
    and "\<not> fails e Settings_find" and "\<not> fails e Settings_update"
  shows "getNextQuoteNumber e d c =
     (CompanyService_invalidateCache c
        (d\<lparr>companySettings_table :=
             map (\<lambda>r. if company_id r = c
                      then r\<lparr>next_quote_number := next_quote_number s + 1\<rparr> else r)
               (companySettings_table d)\<rparr>),
      Inr (quote_prefix s @ ''-'' @ padStart 4 (CHR ''0'') (toString (next_quote_number s))))"
  using assms by (simp add: getNextQuoteNumber_def getCompanySettings_found Let_def)

lemma find_after_getNextQuoteNumber:
  assumes "find (\<lambda>s. company_id s = c) (companySettings_table d) = Some s"
    and "\<not> fails e Settings_find" and "\<not> fails e Settings_update"
  shows "find (\<lambda>s. company_id s = c)
           (companySettings_table (fst (getNextQuoteNumber e d c))) =
         Some (s\<lparr>next_quote_number := next_quote_number s + 1\<rparr>)"
  using assms(1)
  by (simp add: getNextQuoteNumber_found [OF assms]
      find_map_key [where key = company_id and f = "\<lambda>r. r\<lparr>next_quote_number := next_quote_number s + 1\<rparr>"])

lemma quote_numbers_found:
  assumes "find (\<lambda>s. company_id s = c) (companySettings_table d) = Some s"
    and "\<not> fails e Settings_find" and "\<not> fails e Settings_update"
  shows "quote_numbers e d c k =
     map (\<lambda>i. quote_prefix s @ ''-'' @
               padStart 4 (CHR ''0'') (toString (next_quote_number s + int i))) [0..<k]"
  using assms(1)
proof (induction k arbitrary: d s)
  case 0
  show ?case by simp
next
  case (Suc k)
  let ?d1 = "fst (getNextQuoteNumber e d c)"
  let ?s1 = "s\<lparr>next_quote_number := next_quote_number s + 1\<rparr>"
  have f1: "find (\<lambda>s. company_id s = c) (companySettings_table ?d1) = Some ?s1"
    by (rule find_after_getNextQuoteNumber [OF Suc.prems assms(2,3)])
  have step: "quote_numbers e d c (Suc k) =
      (quote_prefix s @ ''-'' @ padStart 4 (CHR ''0'') (toString (next_quote_number s))) #
      quote_numbers e ?d1 c k"
    by (simp add: getNextQuoteNumber_found [OF Suc.prems assms(2,3)])
  have "quote_numbers e ?d1 c k =
      map (\<lambda>i. quote_prefix s @ ''-'' @
               padStart 4 (CHR ''0'') (toString (next_quote_number s + 1 + int i))) [0..<k]"
    using Suc.IH [OF f1] by simp
  also have "\<dots> = map (\<lambda>i. quote_prefix s @ ''-'' @
               padStart 4 (CHR ''0'') (toString (next_quote_number s + int i))) (map Suc [0..<k])"
    by (simp add: comp_def ac_simps)
  finally show ?case
    unfolding step by (simp add: upt_conv_Cons map_Suc_upt del: upt_Suc)
qed

lemma replicate_small:
  "replicate 1 c = [c]" "replicate 2 c = [c, c]" "replicate 3 c = [c, c, c]"
  by (simp_all add: numeral_2_eq_2 numeral_3_eq_3)

lemmas number_eval = toString_def padStart_def digits_small digits_large digit_char_def
  replicate_small

text \<open>
  C7. Let the settings of a company hold the counter \<open>n\<close> and the prefix \<open>p\<close>, and let
  storage not fail. A call of \<open>getNextInvoiceNumber\<close> (of \<open>getNextQuoteNumber\<close>) returns
  \<open>p\<close>, a hyphen and \<open>n\<close> in decimal, padded with zeros on the left to four characters
  and wider when \<open>n\<close> has more digits, and it leaves the counter at \<open>n + 1\<close>. Calls in
  sequence return the numbers of \<open>n\<close>, \<open>n + 1\<close>, \<open>n + 2\<close>, and so on, which are pairwise
  distinct: no number is issued twice.
\<close>

theorem sequence_generator_numbers:
  assumes "find (\<lambda>s. company_id s = c) (companySettings_table d) = Some s"
    and "\<not> fails e Settings_find" and "\<not> fails e Settings_update"
  shows "snd (getNextInvoiceNumber e d c) =
           Inr (invoice_prefix s @ ''-'' @ padStart 4 (CHR ''0'') (toString (next_invoice_number s))) \<and>
         find (\<lambda>s. company_id s = c) (companySettings_table (fst (getNextInvoiceNumber e d c))) =
           Some (s\<lparr>next_invoice_number := next_invoice_number s + 1\<rparr>) \<and>
         invoice_numbers e d c k =
           map (\<lambda>i. invoice_prefix s @ ''-'' @
                    padStart 4 (CHR ''0'') (toString (next_invoice_number s + int i))) [0..<k] \<and>
         distinct (invoice_numbers e d c k) \<and>
         snd (getNextQuoteNumber e d c) =
           Inr (quote_prefix s @ ''-'' @ padStart 4 (CHR ''0'') (toString (next_quote_number s))) \<and>
         find (\<lambda>s. company_id s = c) (companySettings_table (fst (getNextQuoteNumber e d c))) =
           Some (s\<lparr>next_quote_number := next_quote_number s + 1\<rparr>) \<and>
         quote_numbers e d c k =
           map (\<lambda>i. quote_prefix s @ ''-'' @
                    padStart 4 (CHR ''0'') (toString (next_quote_number s + int i))) [0..<k] \<and>
         distinct (quote_numbers e d c k) \<and>
         length (padStart 4 (CHR ''0'') (toString n)) = max 4 (length (toString n)) \<and>
         (0 \<le> n \<longrightarrow>
            padStart 4 (CHR ''0'') (toString n) =
              replicate (4 - length (digits (nat n))) (CHR ''0'') @ digits (nat n))"
proof -
  note i = invoice_numbers_found [OF assms, of k]
  note q = quote_numbers_found [OF assms, of k]
  have c1: "snd (getNextInvoiceNumber e d c) =
      Inr (invoice_prefix s @ ''-'' @ padStart 4 (CHR ''0'') (toString (next_invoice_number s)))"
    by (simp add: getNextInvoiceNumber_found [OF assms])
  have c2: "snd (getNextQuoteNumber e d c) =
      Inr (quote_prefix s @ ''-'' @ padStart 4 (CHR ''0'') (toString (next_quote_number s)))"
    by (simp add: getNextQuoteNumber_found [OF assms])
  have c3: "distinct (invoice_numbers e d c k)" unfolding i by (rule distinct_numbers)
  have c4: "distinct (quote_numbers e d c k)" unfolding q by (rule distinct_numbers)
  have c5: "0 \<le> n \<longrightarrow>
            padStart 4 (CHR ''0'') (toString n) =
              replicate (4 - length (digits (nat n))) (CHR ''0'') @ digits (nat n)"
    using padStart_toString_nonneg [of n] by blast
  show ?thesis
    using c1 c2 c3 c4 c5 i q find_after_getNextInvoiceNumber [OF assms]
      find_after_getNextQuoteNumber [OF assms] length_padStart [of 4 "CHR ''0''" "toString n"]
    by blast
qed

theorem sequence_generator_numbers_witness:
  "find (\<lambda>s. company_id s = ''c1'') (companySettings_table settings_db) = Some sample_settings \<and>
   \<not> fails sample_env Settings_find \<and> \<not> fails sample_env Settings_update \<and>
   invoice_numbers sample_env settings_db ''c1'' 2 = [''INV-9999'', ''INV-10000''] \<and>
   quote_numbers sample_env settings_db ''c1'' 2 = [''QUO-0007'', ''QUO-0008''] \<and>
   padStart 4 (CHR ''0'') (toString 7) = ''0007''"
proof -
  have h: "find (\<lambda>s. company_id s = ''c1'') (companySettings_table settings_db) = Some sample_settings"
    by (simp add: settings_db_def sample_settings_def)
  have f1: "\<not> fails sample_env Settings_find" and f2: "\<not> fails sample_env Settings_update"
    by (simp_all add: sample_env_def)
  have m1: "map (\<lambda>i. invoice_prefix sample_settings @ ''-'' @
        padStart 4 (CHR ''0'') (toString (next_invoice_number sample_settings + int i))) [0..<2] =
      [''INV-9999'', ''INV-10000'']"
    by (simp add: sample_settings_def upt_rec number_eval)
  have m2: "map (\<lambda>i. quote_prefix sample_settings @ ''-'' @
        padStart 4 (CHR ''0'') (toString (next_quote_number sample_settings + int i))) [0..<2] =
      [''QUO-0007'', ''QUO-0008'']"
    by (simp add: sample_settings_def upt_rec number_eval)
  have m3: "replicate (4 - length (digits (nat 7))) (CHR ''0'') @ digits (nat 7) = ''0007''"
    by (simp add: number_eval)
  note t = sequence_generator_numbers [OF h f1 f2, of 2 7]
  have i: "invoice_numbers sample_env settings_db ''c1'' 2 = [''INV-9999'', ''INV-10000'']"
    using t m1 by (simp only:)
  have q: "quote_numbers sample_env settings_db ''c1'' 2 = [''QUO-0007'', ''QUO-0008'']"
    using t m2 by (simp only:)
  have p: "padStart 4 (CHR ''0'') (toString 7) = ''0007''"
    using t m3 by simp
  from h f1 f2 i q p show ?thesis by (simp only: simp_thms)
qed

section \<open>Properties of the quote lifecycle\<close>

lemmas sample_defs = sample_env_def readback_fault_env_def sample_settings_def settings_db_def
  sample_quote_def sample_quote_items_def quote_db_def sample_conversion_def
  sent_quote_def pending_quote_def converted_quote_def sent_quote_db_def empty_cache_def
  bare_quote_def bare_quote_db_def

lemmas calc_defs = calculateInvoiceTotals_def InvoiceService_item_def
  InvoiceService_getVatRateValue_def InvoiceService_rates_def raw_item.defs calc_item.defs

lemmas service_defs = getCompanySettings_def createDefaultSettings_def getNextInvoiceNumber_def
  getInvoiceById_def createInvoice_def getQuoteById_def convertToInvoice_def markAsAccepted_def
  conversion_request_def conversion_items_def invoice_item_rows_def rethrow_quote_def
  rethrow_invoice_def str_or_def opt_str_or_def int_or_def invoice_create_data_def
  validity_before_def toNumber_raises_def

lemmas cache_eval = CompanyService_invalidateCache_well_keyed
  InvoiceService_invalidateCache_well_keyed QuoteService_invalidateCache_well_keyed
  well_keyed_def keyPrefix_def cache_get_invoice_def cache_set_invoice_def
  cache_get_quote_def cache_set_quote_def

subsection \<open>Reading through the cache\<close>

lemma getQuoteById_hit:
  assumes "cache_get_quote (''quote:'' @ digits qid) (cache d) = Some (q, qitems)"
  shows "getQuoteById e st d qid = (d, Inr (Cached, q, qitems))"
  using assms by (simp add: getQuoteById_def)

lemma getQuoteById_miss:
  assumes "cache_get_quote (''quote:'' @ digits qid) (cache d) = None"
    and "find (\<lambda>q. quote_id q = qid) (quote_table d) = Some q" and "\<not> fails e st"
  shows "getQuoteById e st d qid =
     (d\<lparr>cache :=
          cache_set_quote (''quote:'' @ digits qid)
            (q, sort_key qi_sort_order (filter (\<lambda>r. qi_quote_id r = qid) (quoteItem_table d)))
            (cache d)\<rparr>,
      Inr (Live, q, sort_key qi_sort_order (filter (\<lambda>r. qi_quote_id r = qid) (quoteItem_table d))))"
  using assms by (simp add: getQuoteById_def Let_def)

lemma getQuoteById_frame:
  assumes "getQuoteById e st d qid = (d', r)"
  shows "same_tables d d' \<and> cache_get_invoice k (cache d') = cache_get_invoice k (cache d)"
  using assms
  by (auto simp add: getQuoteById_def same_tables_def Let_def split: option.splits if_splits)

lemma getInvoiceById_hit:
  assumes "cache_get_invoice (''invoice:'' @ digits iid) (cache d) = Some cached"
  shows "getInvoiceById e st d iid = (d, Inr cached)"
  using assms by (simp add: getInvoiceById_def)

lemma getInvoiceById_miss:
  assumes "cache_get_invoice (''invoice:'' @ digits iid) (cache d) = None"
    and "find (\<lambda>i. invoice_id i = iid) (invoice_table d) = Some i" and "\<not> fails e st"
  shows "getInvoiceById e st d iid =
     (d\<lparr>cache :=
          cache_set_invoice (''invoice:'' @ digits iid)
            (i, sort_key ii_sort_order (filter (\<lambda>r. ii_invoice_id r = iid) (invoiceItem_table d)))
            (cache d)\<rparr>,
      Inr (i, sort_key ii_sort_order (filter (\<lambda>r. ii_invoice_id r = iid) (invoiceItem_table d))))"
  using assms by (simp add: getInvoiceById_def Let_def)

lemma getInvoiceById_frame:
  assumes "getInvoiceById e st d iid = (d', r)"
  shows "same_tables d d' \<and> cache_get_quote k (cache d') = cache_get_quote k (cache d)"
  using assms
  by (auto simp add: getInvoiceById_def same_tables_def Let_def split: option.splits if_splits)

lemma getInvoiceById_returns:
  assumes "find (\<lambda>i. invoice_id i = iid) (invoice_table d) = Some i" and "\<not> fails e st"
  shows "\<exists>d' res. getInvoiceById e st d iid = (d', Inr res) \<and> same_tables d d'"
  using assms
  by (auto simp add: getInvoiceById_def same_tables_def Let_def split: option.splits)

lemma find_quote_after_update:
  assumes "find (\<lambda>q. quote_id q = qid) (quote_table d) = Some q"
    and "\<And>r. quote_id (f r) = quote_id r"
  shows "find (\<lambda>q. quote_id q = qid)
           (map (\<lambda>r. if quote_id r = qid then f r else r) (quote_table d)) = Some (f q)"
  using assms(1) find_map_key [where key = quote_id and f = f and k = qid, OF assms(2)]
  by simp

subsection \<open>Creating the invoice\<close>

lemma getNextInvoiceNumber_frame:
  assumes "getNextInvoiceNumber e d c = (d1, r)"
  shows "invoice_table d1 = invoice_table d \<and> invoiceItem_table d1 = invoiceItem_table d \<and>
         quote_table d1 = quote_table d \<and> quoteItem_table d1 = quoteItem_table d \<and>
         next_id d1 = next_id d"
  using assms
  by (auto simp add: getNextInvoiceNumber_def getCompanySettings_def createDefaultSettings_def
      Let_def split: option.splits if_splits)

lemma getNextInvoiceNumber_invoice_None:
  assumes "getNextInvoiceNumber e d c = (d1, r)" and "cache_get_invoice k (cache d) = None"
  shows "cache_get_invoice k (cache d1) = None"
  using assms
  by (auto simp add: getNextInvoiceNumber_def getCompanySettings_def createDefaultSettings_def
      Let_def CompanyService_invalidateCache_invoice_None split: option.splits if_splits)

lemma getNextInvoiceNumber_no_fault:
  assumes "\<forall>st. \<not> fails e st"
  shows "\<exists>d1 num. getNextInvoiceNumber e d c = (d1, Inr num)"
  using assms
  by (simp add: getNextInvoiceNumber_def getCompanySettings_def createDefaultSettings_def Let_def
      split: option.splits)

lemma find_append_fresh:
  assumes "P y" and "\<forall>x\<in>set xs. \<not> P x"
  shows "find P (xs @ [y]) = Some y"
  using assms by (induction xs) simp_all

lemma find_append_some:
  assumes "P y"
  shows "\<exists>z. find P (xs @ [y]) = Some z"
  using assms by (induction xs) simp_all

lemma createInvoice_frame:
  assumes "createInvoice e d data u c = (d', r)"
  shows "quote_table d' = quote_table d \<and> quoteItem_table d' = quoteItem_table d"
proof -
  obtain d1 r1 where n: "getNextInvoiceNumber e d c = (d1, r1)"
    by (cases "getNextInvoiceNumber e d c")
  note fr = getNextInvoiceNumber_frame [OF n]
  show ?thesis
  proof (cases r1)
    case (Inl err)
    with assms n fr show ?thesis by (simp add: createInvoice_def)
  next
    case (Inr num)
    show ?thesis
    proof (cases "fails e Invoice_create")
      case True
      with assms n fr Inr show ?thesis by (simp add: createInvoice_def Let_def)
    next
      case False
      let ?new = "invoice_create_data e (next_id d1) data u c num
        (totals (calculateInvoiceTotals (cr_items data)))"
      let ?rows = "invoice_item_rows (Suc (next_id d1)) (invoice_id ?new)
        (items (calculateInvoiceTotals (cr_items data)))"
      let ?d3 = "InvoiceService_invalidateCache (invoice_id ?new) c
        (d1\<lparr>invoice_table := invoice_table d1 @ [?new],
            invoiceItem_table := invoiceItem_table d1 @ ?rows,
            next_id := Suc (next_id d1) + length ?rows\<rparr>)"
      obtain d4 r4 where g: "getInvoiceById e Invoice_readback ?d3 (invoice_id ?new) = (d4, r4)"
        by (cases "getInvoiceById e Invoice_readback ?d3 (invoice_id ?new)")
      from getInvoiceById_frame [OF g] have st: "same_tables ?d3 d4" by simp
      from assms n Inr False g have "d' = d4"
        by (cases r4) (simp_all add: createInvoice_def Let_def)
      with st fr show ?thesis by (simp add: same_tables_def)
    qed
  qed
qed

lemma createInvoice_result:
  assumes "createInvoice e d data u c = (d', Inr (invoice, its))"
    and "\<forall>i\<in>set (invoice_table d). invoice_id i \<noteq> next_id d"
    and "cache_get_invoice (''invoice:'' @ digits (next_id d)) (cache d) = None"
  shows "invoice_id invoice = next_id d \<and> inv_due_date invoice = cr_due_date data \<and>
         inv_invoice_date invoice = cr_invoice_date data \<and>
         find (\<lambda>i. invoice_id i = next_id d) (invoice_table d') = Some invoice"
proof -
  obtain d1 r1 where n: "getNextInvoiceNumber e d c = (d1, r1)"
    by (cases "getNextInvoiceNumber e d c")
  note fr = getNextInvoiceNumber_frame [OF n]
  note nc = getNextInvoiceNumber_invoice_None [OF n assms(3)]
  from assms(1) n obtain num where r1: "r1 = Inr num"
    by (cases r1) (simp_all add: createInvoice_def)
  from assms(1) n r1 have nf: "\<not> fails e Invoice_create"
    by (auto simp add: createInvoice_def Let_def split: if_splits)
  let ?new = "invoice_create_data e (next_id d1) data u c num
    (totals (calculateInvoiceTotals (cr_items data)))"
  let ?rows = "invoice_item_rows (Suc (next_id d1)) (invoice_id ?new)
    (items (calculateInvoiceTotals (cr_items data)))"
  let ?d2 = "d1\<lparr>invoice_table := invoice_table d1 @ [?new],
            invoiceItem_table := invoiceItem_table d1 @ ?rows,
            next_id := Suc (next_id d1) + length ?rows\<rparr>"
  let ?d3 = "InvoiceService_invalidateCache (invoice_id ?new) c ?d2"
  have id: "invoice_id ?new = next_id d"
    using fr by (simp add: invoice_create_data_def)
  have "cache_get_invoice (''invoice:'' @ digits (next_id d)) (cache ?d2) = None"
    using nc fr by simp
  then have miss: "cache_get_invoice (''invoice:'' @ digits (invoice_id ?new)) (cache ?d3) = None"
    unfolding id by (rule InvoiceService_invalidateCache_invoice_None)
  have "find (\<lambda>i. invoice_id i = next_id d) (invoice_table d @ [?new]) = Some ?new"
    using id assms(2) by (intro find_append_fresh) simp_all
  then have found: "find (\<lambda>i. invoice_id i = invoice_id ?new) (invoice_table ?d3) = Some ?new"
    using fr id by simp
  have c: "createInvoice e d data u c =
      (case getInvoiceById e Invoice_readback ?d3 (invoice_id ?new) of
         (d4, Inl err) \<Rightarrow> (d4, Inl InvoiceError)
       | (d4, Inr invoice) \<Rightarrow> (d4, Inr invoice))"
    using n r1 nf by (simp add: createInvoice_def Let_def)
  have rb: "\<not> fails e Invoice_readback"
  proof
    assume "fails e Invoice_readback"
    with miss have "getInvoiceById e Invoice_readback ?d3 (invoice_id ?new) = (?d3, Inl InvoiceError)"
      by (simp add: getInvoiceById_def)
    with c assms(1) show False by simp
  qed
  note g = getInvoiceById_miss [OF miss found rb]
  from c g assms(1) have inv: "invoice = ?new"
    and d': "invoice_table d' = invoice_table ?d3"
    by auto
  have fields: "inv_due_date ?new = cr_due_date data" "inv_invoice_date ?new = cr_invoice_date data"
    by (simp_all add: invoice_create_data_def)
  from found id inv d' fields show ?thesis by simp
qed

lemma createInvoice_no_fault:
  assumes "\<forall>st. \<not> fails e st"
  shows "\<exists>d' res. createInvoice e d data u c = (d', Inr res)"
proof -
  from getNextInvoiceNumber_no_fault [OF assms] obtain d1 num
    where n: "getNextInvoiceNumber e d c = (d1, Inr num)"
    by blast
  from assms have nf: "\<not> fails e Invoice_create" "\<not> fails e Invoice_readback" by simp_all
  let ?new = "invoice_create_data e (next_id d1) data u c num
    (totals (calculateInvoiceTotals (cr_items data)))"
  let ?rows = "invoice_item_rows (Suc (next_id d1)) (invoice_id ?new)
    (items (calculateInvoiceTotals (cr_items data)))"
  let ?d3 = "InvoiceService_invalidateCache (invoice_id ?new) c
    (d1\<lparr>invoice_table := invoice_table d1 @ [?new],
        invoiceItem_table := invoiceItem_table d1 @ ?rows,
        next_id := Suc (next_id d1) + length ?rows\<rparr>)"
  from find_append_some [where P = "\<lambda>i. invoice_id i = invoice_id ?new" and y = ?new
      and xs = "invoice_table d1"]
  obtain z where "find (\<lambda>i. invoice_id i = invoice_id ?new) (invoice_table ?d3) = Some z"
    by auto
  from getInvoiceById_returns [OF this nf(2)] obtain d4 res
    where "getInvoiceById e Invoice_readback ?d3 (invoice_id ?new) = (d4, Inr res)"
    by blast
  with n nf show ?thesis by (simp add: createInvoice_def Let_def)
qed

subsection \<open>Conversion\<close>

lemma conversion_request_due_date:
  "cr_due_date (conversion_request q qitems cd now_date now_ms) =
     (case cv_due_date cd of
        Some dt \<Rightarrow> dt
      | None \<Rightarrow>
          now_ms +
          (case cv_payment_terms cd of
             None \<Rightarrow> 30
           | Some days \<Rightarrow> if days = 0 then 30 else days) * 86400000)"
  by (simp add: conversion_request_def int_or_def split: option.splits)

lemma convertToInvoice_result:
  assumes "convertToInvoice e d qid cd now_date now_ms = (d', Inr (q', (invoice, its)))"
    and "\<forall>i\<in>set (invoice_table d). invoice_id i \<noteq> next_id d"
    and "cache_get_invoice (''invoice:'' @ digits (next_id d)) (cache d) = None"
  shows "invoice_id invoice = next_id d \<and>
         find (\<lambda>i. invoice_id i = invoice_id invoice) (invoice_table d') = Some invoice \<and>
         inv_due_date invoice =
           (case cv_due_date cd of
              Some dt \<Rightarrow> dt
            | None \<Rightarrow>
                now_ms +
                (case cv_payment_terms cd of
                   None \<Rightarrow> 30
                 | Some days \<Rightarrow> if days = 0 then 30 else days) * 86400000) \<and>
         q_status q' = ''converted'' \<and> q_converted_to_invoice q' \<and>
         q_invoice_id q' = Some (invoice_id invoice) \<and>
         find (\<lambda>r. quote_id r = qid) (quote_table d') = Some q'"
proof -
  obtain d0 r0 where g: "getQuoteById e Quote_find d qid = (d0, r0)"
    by (cases "getQuoteById e Quote_find d qid")
  from getQuoteById_frame [OF g, of "''invoice:'' @ digits (next_id d)"]
  have st: "same_tables d d0"
    and nc: "cache_get_invoice (''invoice:'' @ digits (next_id d)) (cache d0) = None"
    using assms(3) by simp_all
  from assms(1) g obtain og q qitems where r0: "r0 = Inr (og, q, qitems)"
    by (cases r0) (auto simp add: convertToInvoice_def)
  let ?data = "conversion_request q qitems cd now_date now_ms"
  obtain d1 r1 where c: "createInvoice e d0 ?data (q_user_id q) (q_company_id q) = (d1, r1)"
    by (cases "createInvoice e d0 ?data (q_user_id q) (q_company_id q)")
  from assms(1) g r0 c have guards: "q_status q = ''accepted''" "\<not> q_converted_to_invoice q"
    "\<not> toNumber_raises og q qitems"
    by (auto simp add: convertToInvoice_def Let_def split: if_splits)
  from assms(1) g r0 c guards obtain res where r1: "r1 = Inr res"
    by (cases r1) (auto simp add: convertToInvoice_def Let_def)
  from assms(1) g r0 c guards r1 have nf: "\<not> fails e Quote_update"
    by (auto simp add: convertToInvoice_def Let_def split: if_splits)
  from assms(1) g r0 c guards r1 nf obtain row
    where row: "find (\<lambda>r. quote_id r = qid) (quote_table d1) = Some row"
    by (cases "find (\<lambda>r. quote_id r = qid) (quote_table d1)")
      (auto simp add: convertToInvoice_def Let_def)
  let ?upd = "\<lambda>r. r\<lparr>q_status := ''converted'', q_converted_to_invoice := True,
                     q_invoice_id := Some (invoice_id (fst res))\<rparr>"
  from assms(1) g r0 c guards r1 nf row
  have res: "res = (invoice, its)" and q': "q' = ?upd row"
    and d': "d' = QuoteService_invalidateCache qid (q_company_id q)
                   (d1\<lparr>quote_table := map (\<lambda>r. if quote_id r = qid then ?upd r else r)
                                          (quote_table d1)\<rparr>)"
    by (auto simp add: convertToInvoice_def Let_def)
  from st assms(2) have fresh: "\<forall>i\<in>set (invoice_table d0). invoice_id i \<noteq> next_id d0"
    by (simp add: same_tables_def)
  from st nc have nc0: "cache_get_invoice (''invoice:'' @ digits (next_id d0)) (cache d0) = None"
    by (simp add: same_tables_def)
  from c r1 res have c': "createInvoice e d0 ?data (q_user_id q) (q_company_id q) =
      (d1, Inr (invoice, its))"
    by simp
  from createInvoice_result [OF c' fresh nc0] st
  have a: "invoice_id invoice = next_id d" "inv_due_date invoice = cr_due_date ?data"
    "find (\<lambda>i. invoice_id i = next_id d) (invoice_table d1) = Some invoice"
    by (simp_all add: same_tables_def)
  have "find (\<lambda>r. quote_id r = qid)
      (map (\<lambda>r. if quote_id r = qid then ?upd r else r) (quote_table d1)) = Some (?upd row)"
    by (rule find_quote_after_update [OF row]) simp
  with a d' q' res show ?thesis
    by (simp add: conversion_request_due_date)
qed

lemma convertToInvoice_no_fault:
  assumes "find (\<lambda>q. quote_id q = qid) (quote_table d) = Some q"
    and "q_status q = ''accepted''" and "\<not> q_converted_to_invoice q"
    and "cache_get_quote (''quote:'' @ digits qid) (cache d) = None"
    and "\<forall>st. \<not> fails e st"
  shows "\<exists>d' q' invoice its.
           convertToInvoice e d qid cd now_date now_ms = (d', Inr (q', (invoice, its)))"
proof -
  let ?qitems = "sort_key qi_sort_order (filter (\<lambda>r. qi_quote_id r = qid) (quoteItem_table d))"
  let ?d0 = "d\<lparr>cache := cache_set_quote (''quote:'' @ digits qid) (q, ?qitems) (cache d)\<rparr>"
  let ?data = "conversion_request q ?qitems cd now_date now_ms"
  from assms(5) have nf: "\<not> fails e Quote_find" "\<not> fails e Quote_update" by simp_all
  note g = getQuoteById_miss [OF assms(4) assms(1) nf(1)]
  from createInvoice_no_fault [OF assms(5), of ?d0 ?data "q_user_id q" "q_company_id q"]
  obtain d1 res where c: "createInvoice e ?d0 ?data (q_user_id q) (q_company_id q) = (d1, Inr res)"
    by blast
  from createInvoice_frame [OF c] assms(1)
  have row: "find (\<lambda>r. quote_id r = qid) (quote_table d1) = Some q"
    by simp
  obtain invoice its where res: "res = (invoice, its)"
    by (cases res)
  show ?thesis
    using assms(2,3) nf(2) row c
    by (simp add: convertToInvoice_def g res Let_def toNumber_raises_def)
qed

lemma convertToInvoice_failure_keeps_quote:
  assumes "snd (convertToInvoice e d qid cd now_date now_ms) = Inl err"
  shows "quote_table (fst (convertToInvoice e d qid cd now_date now_ms)) = quote_table d"
proof -
  obtain d0 r0 where g: "getQuoteById e Quote_find d qid = (d0, r0)"
    by (cases "getQuoteById e Quote_find d qid")
  from getQuoteById_frame [OF g, of "[]"] have st: "quote_table d0 = quote_table d"
    by (simp add: same_tables_def)
  show ?thesis
  proof (cases r0)
    case (Inl a)
    with g st show ?thesis by (simp add: convertToInvoice_def)
  next
    case (Inr b)
    obtain og q qitems where b: "b = (og, q, qitems)"
      by (cases b)
    let ?data = "conversion_request q qitems cd now_date now_ms"
    obtain d1 r1 where c: "createInvoice e d0 ?data (q_user_id q) (q_company_id q) = (d1, r1)"
      by (cases "createInvoice e d0 ?data (q_user_id q) (q_company_id q)")
    from createInvoice_frame [OF c] st have qt: "quote_table d1 = quote_table d"
      by simp
    show ?thesis
      using assms g Inr b c st qt
      by (cases r1)
        (auto simp add: convertToInvoice_def Let_def split: if_splits option.splits)
  qed
qed

lemma conversion_items_flag:
  "conversion_items (cd\<lparr>cv_apply_current_prices := b\<rparr>) qitems = conversion_items cd qitems"
  by (simp add: conversion_items_def)

lemma conversion_request_flag:
  "conversion_request q qitems (cd\<lparr>cv_apply_current_prices := b\<rparr>) now_date now_ms =
   conversion_request q qitems cd now_date now_ms"
  by (simp add: conversion_request_def conversion_items_flag cong: option.case_cong)

lemma convertToInvoice_flag:
  "convertToInvoice e d qid (cd\<lparr>cv_apply_current_prices := b\<rparr>) now_date now_ms =
   convertToInvoice e d qid cd now_date now_ms"
  unfolding convertToInvoice_def conversion_request_flag by (rule refl)

text \<open>
  C9. The result of \<open>convertToInvoice\<close>, database and returned value, is the same with
  \<open>apply_current_prices\<close> true and with it false: the line items of the invoice request are
  the same, each carrying the unit price stored on the quote item.
\<close>

theorem convertToInvoice_ignores_apply_current_prices:
  "convertToInvoice e d qid (cd\<lparr>cv_apply_current_prices := True\<rparr>) now_date now_ms =
   convertToInvoice e d qid (cd\<lparr>cv_apply_current_prices := False\<rparr>) now_date now_ms \<and>
   conversion_items (cd\<lparr>cv_apply_current_prices := True\<rparr>) qitems =
   conversion_items (cd\<lparr>cv_apply_current_prices := False\<rparr>) qitems \<and>
   map unit_price_excluding_tax (conversion_items cd qitems) =
   map qi_unit_price_excluding_tax qitems"
  by (simp add: convertToInvoice_flag conversion_items_flag)
     (simp add: conversion_items_def comp_def)

subsection \<open>A quote read from the database and a quote read from the cache\<close>

text \<open>
  The \<open>live\<close> lemmas follow an operation whose first read finds no copy in the cache and
  goes to the database; the \<open>cached\<close> lemmas follow one that gets the parsed copy.
\<close>

lemma getQuoteById_returns:
  assumes "find (\<lambda>q. quote_id q = qid) (quote_table d) = Some q" and "\<not> fails e st"
  shows "\<exists>d' og res. getQuoteById e st d qid = (d', Inr (og, res)) \<and> same_tables d d'"
  using assms
  by (auto simp add: getQuoteById_def same_tables_def Let_def split: option.splits)

lemma markAsAccepted_cached:
  assumes "cache_get_quote (''quote:'' @ digits qid) (cache d) = Some (qc, qitems)"
    and "q_status qc \<noteq> ''accepted''"
    and "find (\<lambda>r. quote_id r = qid) (quote_table d) = Some row"
    and "\<forall>st. \<not> fails e st"
  shows "\<exists>d' res. markAsAccepted e d qid now_check now_write = (d', Inr res) \<and>
           quote_table d' =
             map (\<lambda>r. if quote_id r = qid
                      then r\<lparr>q_status := ''accepted'', q_accepted_at := Some now_write\<rparr>
                      else r)
               (quote_table d)"
proof -
  let ?upd = "\<lambda>r. r\<lparr>q_status := ''accepted'', q_accepted_at := Some now_write\<rparr>"
  let ?d2 = "QuoteService_invalidateCache qid (q_company_id qc)
      (d\<lparr>quote_table := map (\<lambda>r. if quote_id r = qid then ?upd r else r) (quote_table d)\<rparr>)"
  from assms(4) have nf: "\<not> fails e Quote_update" "\<not> fails e Quote_readback" by simp_all
  have "find (\<lambda>r. quote_id r = qid)
      (map (\<lambda>r. if quote_id r = qid then ?upd r else r) (quote_table d)) = Some (?upd row)"
    by (rule find_quote_after_update [OF assms(3)]) simp
  then have "find (\<lambda>r. quote_id r = qid) (quote_table ?d2) = Some (?upd row)"
    by simp
  from getQuoteById_returns [OF this nf(2)] obtain d' og res
    where rb: "getQuoteById e Quote_readback ?d2 qid = (d', Inr (og, res))"
      and st: "same_tables ?d2 d'"
    by blast
  from st have "quote_table d' =
      map (\<lambda>r. if quote_id r = qid then ?upd r else r) (quote_table d)"
    by (simp add: same_tables_def)
  with rb assms(2,3) nf(1) show ?thesis
    by (simp add: markAsAccepted_def getQuoteById_hit [OF assms(1)] validity_before_def Let_def)
qed

lemma markAsAccepted_live:
  assumes "cache_get_quote (''quote:'' @ digits qid) (cache d) = None"
    and "find (\<lambda>q. quote_id q = qid) (quote_table d) = Some q" and "\<not> fails e Quote_find"
  shows "(q_status q = ''accepted'' \<longrightarrow>
            snd (markAsAccepted e d qid now_check now_write) =
              Inl (QuoteStatusError ''accepted'' ''marquer comme accepte'') \<and>
            same_tables d (fst (markAsAccepted e d qid now_check now_write))) \<and>
         (q_status q \<noteq> ''accepted'' \<and> q_validity_date q < now_check \<longrightarrow>
            snd (markAsAccepted e d qid now_check now_write) =
              Inl (QuoteStatusError ''expired'' ''accepter'') \<and>
            same_tables d (fst (markAsAccepted e d qid now_check now_write))) \<and>
         (q_status q \<noteq> ''accepted'' \<and> \<not> q_validity_date q < now_check \<and>
          \<not> fails e Quote_update \<and> \<not> fails e Quote_readback \<longrightarrow>
            (\<exists>d' res. markAsAccepted e d qid now_check now_write = (d', Inr res) \<and>
               find (\<lambda>r. quote_id r = qid) (quote_table d') =
                 Some (q\<lparr>q_status := ''accepted'', q_accepted_at := Some now_write\<rparr>)))"
proof -
  let ?qitems = "sort_key qi_sort_order (filter (\<lambda>r. qi_quote_id r = qid) (quoteItem_table d))"
  let ?d0 = "d\<lparr>cache := cache_set_quote (''quote:'' @ digits qid) (q, ?qitems) (cache d)\<rparr>"
  let ?upd = "\<lambda>r. r\<lparr>q_status := ''accepted'', q_accepted_at := Some now_write\<rparr>"
  let ?d2 = "QuoteService_invalidateCache qid (q_company_id q)
      (?d0\<lparr>quote_table := map (\<lambda>r. if quote_id r = qid then ?upd r else r) (quote_table ?d0)\<rparr>)"
  note g = getQuoteById_miss [OF assms]
  have a: "q_status q = ''accepted'' \<longrightarrow>
            snd (markAsAccepted e d qid now_check now_write) =
              Inl (QuoteStatusError ''accepted'' ''marquer comme accepte'') \<and>
            same_tables d (fst (markAsAccepted e d qid now_check now_write))"
    by (simp add: markAsAccepted_def g same_tables_def)
  have b: "q_status q \<noteq> ''accepted'' \<and> q_validity_date q < now_check \<longrightarrow>
            snd (markAsAccepted e d qid now_check now_write) =
              Inl (QuoteStatusError ''expired'' ''accepter'') \<and>
            same_tables d (fst (markAsAccepted e d qid now_check now_write))"
    by (simp add: markAsAccepted_def g validity_before_def same_tables_def)
  have c: "\<exists>d' res. markAsAccepted e d qid now_check now_write = (d', Inr res) \<and>
               find (\<lambda>r. quote_id r = qid) (quote_table d') = Some (?upd q)"
    if h: "q_status q \<noteq> ''accepted''" "\<not> q_validity_date q < now_check"
      "\<not> fails e Quote_update" "\<not> fails e Quote_readback"
  proof -
    have u: "find (\<lambda>r. quote_id r = qid)
        (map (\<lambda>r. if quote_id r = qid then ?upd r else r) (quote_table d)) = Some (?upd q)"
      by (rule find_quote_after_update [OF assms(2)]) simp
    then have "find (\<lambda>r. quote_id r = qid) (quote_table ?d2) = Some (?upd q)"
      by simp
    from getQuoteById_returns [OF this h(4)] obtain d' og res
      where rb: "getQuoteById e Quote_readback ?d2 qid = (d', Inr (og, res))"
        and st: "same_tables ?d2 d'"
      by blast
    from st u have "find (\<lambda>r. quote_id r = qid) (quote_table d') = Some (?upd q)"
      by (simp add: same_tables_def)
    with rb h assms(2) show ?thesis
      by (simp add: markAsAccepted_def g validity_before_def Let_def)
  qed
  from a b c show ?thesis by blast
qed

lemma convertToInvoice_cached:
  assumes "cache_get_quote (''quote:'' @ digits qid) (cache d) = Some (qc, qitems)"
    and "q_status qc = ''accepted''" and "\<not> q_converted_to_invoice qc"
    and "toNumber_raises Cached qc qitems"
  shows "convertToInvoice e d qid cd now_date now_ms = (d, Inl QuoteError)"
  using assms(2-4) by (simp add: convertToInvoice_def getQuoteById_hit [OF assms(1)])

lemma convertToInvoice_live:
  assumes "cache_get_quote (''quote:'' @ digits qid) (cache d) = None"
    and "find (\<lambda>q. quote_id q = qid) (quote_table d) = Some q" and "\<not> fails e Quote_find"
  shows "(q_status q \<noteq> ''accepted'' \<longrightarrow>
            snd (convertToInvoice e d qid cd now_date now_ms) =
              Inl (QuoteStatusError (q_status q) ''convertir en facture'') \<and>
            same_tables d (fst (convertToInvoice e d qid cd now_date now_ms))) \<and>
         (q_status q = ''accepted'' \<and> q_converted_to_invoice q \<longrightarrow>
            snd (convertToInvoice e d qid cd now_date now_ms) =
              Inl (QuoteStatusError ''already converted'' ''convertir a nouveau'') \<and>
            same_tables d (fst (convertToInvoice e d qid cd now_date now_ms))) \<and>
         (q_status q = ''accepted'' \<and> \<not> q_converted_to_invoice q \<and> (\<forall>st. \<not> fails e st) \<longrightarrow>
            (\<exists>d' q' invoice its.
               convertToInvoice e d qid cd now_date now_ms = (d', Inr (q', (invoice, its)))))"
proof -
  note g = getQuoteById_miss [OF assms]
  have a: "q_status q \<noteq> ''accepted'' \<longrightarrow>
            snd (convertToInvoice e d qid cd now_date now_ms) =
              Inl (QuoteStatusError (q_status q) ''convertir en facture'') \<and>
            same_tables d (fst (convertToInvoice e d qid cd now_date now_ms))"
    by (simp add: convertToInvoice_def g same_tables_def)
  have b: "q_status q = ''accepted'' \<and> q_converted_to_invoice q \<longrightarrow>
            snd (convertToInvoice e d qid cd now_date now_ms) =
              Inl (QuoteStatusError ''already converted'' ''convertir a nouveau'') \<and>
            same_tables d (fst (convertToInvoice e d qid cd now_date now_ms))"
    by (simp add: convertToInvoice_def g same_tables_def)
  have c: "q_status q = ''accepted'' \<and> \<not> q_converted_to_invoice q \<and> (\<forall>st. \<not> fails e st) \<longrightarrow>
            (\<exists>d' q' invoice its.
               convertToInvoice e d qid cd now_date now_ms = (d', Inr (q', (invoice, its))))"
    using convertToInvoice_no_fault [OF assms(2) _ _ assms(1), of e cd now_date now_ms] by blast
  from a b c show ?thesis by blast
qed

subsection \<open>Due date of the new invoice\<close>

text \<open>
  C3 as stated fails: the company of the sample quote has 45 days as its default payment
  terms; a conversion at time 2000 without \<open>due_date\<close> and without \<open>payment_terms\<close> makes
  the invoice due 30 days later, not 45.
\<close>

theorem convertToInvoice_default_terms_counterexample:
  "map_sum id (\<lambda>r. inv_due_date (fst (snd r)))
     (snd (convertToInvoice sample_env quote_db 10 sample_conversion 2000 2000)) =
     Inr 2592002000 \<and>
   find (\<lambda>s. company_id s = q_company_id sample_quote) (companySettings_table quote_db) =
     Some sample_settings \<and>
   default_payment_terms sample_settings = 45 \<and>
   cv_due_date sample_conversion = None \<and> cv_payment_terms sample_conversion = None \<and>
   spec_due_date sample_settings sample_conversion 2000 = 3888002000"
  by (simp add: sample_defs service_defs cache_eval calc_defs Let_def number_eval spec_due_date_def)

text \<open>
  C3 (amended). When \<open>conversionData.due_date\<close> is absent, the invoice that a conversion
  creates is due at now plus \<open>payment_terms\<close> days when \<open>payment_terms\<close> is given and not
  zero, and at now plus 30 days otherwise; the settings of the company are not consulted.
  This holds of every conversion that returns, the identifier of the new invoice being
  fresh in the database and in the cache. A conversion returns when the quote is read from
  the database, is accepted and not converted, and storage does not fail.
\<close>

theorem convertToInvoice_due_date:
  assumes "\<forall>i\<in>set (invoice_table d). invoice_id i \<noteq> next_id d"
    and "cache_get_invoice (''invoice:'' @ digits (next_id d)) (cache d) = None"
    and "cv_due_date cd = None"
  shows "(\<forall>d' q' invoice its.
            convertToInvoice e d qid cd now_date now_ms = (d', Inr (q', (invoice, its))) \<longrightarrow>
            find (\<lambda>i. invoice_id i = invoice_id invoice) (invoice_table d') = Some invoice \<and>
            inv_due_date invoice =
              now_ms +
              (case cv_payment_terms cd of
                 None \<Rightarrow> 30
               | Some days \<Rightarrow> if days = 0 then 30 else days) * 86400000) \<and>
         (find (\<lambda>q. quote_id q = qid) (quote_table d) = Some q \<and>
          q_status q = ''accepted'' \<and> \<not> q_converted_to_invoice q \<and>
          cache_get_quote (''quote:'' @ digits qid) (cache d) = None \<and>
          (\<forall>st. \<not> fails e st) \<longrightarrow>
            (\<exists>d' q' invoice its.
               convertToInvoice e d qid cd now_date now_ms = (d', Inr (q', (invoice, its)))))"
proof -
  have a: "find (\<lambda>i. invoice_id i = invoice_id invoice) (invoice_table d') = Some invoice \<and>
      inv_due_date invoice =
        now_ms +
        (case cv_payment_terms cd of
           None \<Rightarrow> 30
         | Some days \<Rightarrow> if days = 0 then 30 else days) * 86400000"
    if "convertToInvoice e d qid cd now_date now_ms = (d', Inr (q', (invoice, its)))"
    for d' q' invoice its
  proof -
    note r = convertToInvoice_result [OF that assms(1,2)]
    from r have "find (\<lambda>i. invoice_id i = invoice_id invoice) (invoice_table d') = Some invoice"
      by blast
    moreover from r have "inv_due_date invoice =
        (case cv_due_date cd of
           Some dt \<Rightarrow> dt
         | None \<Rightarrow>
             now_ms +
             (case cv_payment_terms cd of
                None \<Rightarrow> 30
              | Some days \<Rightarrow> if days = 0 then 30 else days) * 86400000)"
      by blast
    ultimately show ?thesis
      by (simp add: assms(3))
  qed
  have b: "\<exists>d' q' invoice its.
      convertToInvoice e d qid cd now_date now_ms = (d', Inr (q', (invoice, its)))"
    if "find (\<lambda>q. quote_id q = qid) (quote_table d) = Some q"
      and "q_status q = ''accepted''" and "\<not> q_converted_to_invoice q"
      and "cache_get_quote (''quote:'' @ digits qid) (cache d) = None"
      and "\<forall>st. \<not> fails e st"
    using that by (rule convertToInvoice_no_fault)
  from a b show ?thesis by blast
qed

theorem convertToInvoice_due_date_witness:
  "invoice_table quote_db = [] \<and>
   cache_get_invoice (''invoice:'' @ digits (next_id quote_db)) (cache quote_db) = None \<and>
   cv_due_date (sample_conversion\<lparr>cv_payment_terms := Some 15\<rparr>) = None \<and>
   find (\<lambda>q. quote_id q = 10) (quote_table quote_db) = Some sample_quote \<and>
   q_status sample_quote = ''accepted'' \<and> \<not> q_converted_to_invoice sample_quote \<and>
   cache_get_quote (''quote:'' @ digits 10) (cache quote_db) = None \<and>
   (\<forall>st. \<not> fails sample_env st) \<and>
   (\<exists>d' q' invoice its.
      convertToInvoice sample_env quote_db 10 (sample_conversion\<lparr>cv_payment_terms := Some 15\<rparr>)
        2000 2000 = (d', Inr (q', (invoice, its))) \<and>
      find (\<lambda>i. invoice_id i = invoice_id invoice) (invoice_table d') = Some invoice \<and>
      inv_due_date invoice = 1296002000)"
proof -
  have nf: "\<forall>st. \<not> fails sample_env st" by (simp add: sample_env_def)
  have f: "find (\<lambda>q. quote_id q = 10) (quote_table quote_db) = Some sample_quote"
    and s: "q_status sample_quote = ''accepted''" "\<not> q_converted_to_invoice sample_quote"
    and e: "invoice_table quote_db = []"
    and c: "cv_due_date (sample_conversion\<lparr>cv_payment_terms := Some 15\<rparr>) = None"
    and p: "cv_payment_terms (sample_conversion\<lparr>cv_payment_terms := Some 15\<rparr>) = Some 15"
    by (simp_all add: sample_defs)
  have ci: "cache_get_invoice (''invoice:'' @ digits (next_id quote_db)) (cache quote_db) = None"
    and cq: "cache_get_quote (''quote:'' @ digits 10) (cache quote_db) = None"
    by (simp_all add: quote_db_def empty_cache_def cache_get_invoice_def cache_get_quote_def)
  from e have fresh: "\<forall>i\<in>set (invoice_table quote_db). invoice_id i \<noteq> next_id quote_db" by simp
  note t = convertToInvoice_due_date [OF fresh ci c, of sample_env 10 2000 2000 sample_quote]
  from t f s cq nf obtain d' q' invoice its where
    r: "convertToInvoice sample_env quote_db 10 (sample_conversion\<lparr>cv_payment_terms := Some 15\<rparr>)
        2000 2000 = (d', Inr (q', (invoice, its)))"
    by blast
  with t have "find (\<lambda>i. invoice_id i = invoice_id invoice) (invoice_table d') = Some invoice \<and>
      inv_due_date invoice = 1296002000"
    unfolding p by simp
  with r have x: "\<exists>d' q' invoice its.
      convertToInvoice sample_env quote_db 10 (sample_conversion\<lparr>cv_payment_terms := Some 15\<rparr>)
        2000 2000 = (d', Inr (q', (invoice, its))) \<and>
      find (\<lambda>i. invoice_id i = invoice_id invoice) (invoice_table d') = Some invoice \<and>
      inv_due_date invoice = 1296002000"
    by blast
  from e ci c f s cq nf x show ?thesis by (simp only: simp_thms)
qed

subsection \<open>Conversion and acceptance after a read\<close>

text \<open>
  C5 (the code departs from the claim). The claim: \<open>convertToInvoice\<close> succeeds on every
  accepted quote that is not converted. The sample quote is accepted and not converted,
  and its conversion succeeds when the quote is read from the database. Once
  \<open>getQuoteById\<close> has read the quote, the cache holds its JSON text; the conversion then
  gets the copy, whose decimal columns have no \<open>toNumber\<close>, and fails with \<open>QuoteError\<close>,
  the database being as it was. \<open>markAsAccepted\<close> reads the quote through the same cache,
  so the conversion of a quote that has just been accepted fails as well.
\<close>

theorem convertToInvoice_fails_on_cached_quote:
  "find (\<lambda>q. quote_id q = 10) (quote_table quote_db) = Some sample_quote \<and>
   q_status sample_quote = ''accepted'' \<and> \<not> q_converted_to_invoice sample_quote \<and>
   (\<forall>st. \<not> fails sample_env st) \<and>
   \<not> isl (snd (convertToInvoice sample_env quote_db 10 sample_conversion 2000 2000)) \<and>
   snd (getQuoteById sample_env Quote_find quote_db 10) =
     Inr (Live, sample_quote, sample_quote_items) \<and>
   same_tables quote_db (fst (getQuoteById sample_env Quote_find quote_db 10)) \<and>
   convertToInvoice sample_env (fst (getQuoteById sample_env Quote_find quote_db 10)) 10
     sample_conversion 2000 2000 =
     (fst (getQuoteById sample_env Quote_find quote_db 10), Inl QuoteError) \<and>
   \<not> isl (snd (markAsAccepted sample_env sent_quote_db 10 900 901)) \<and>
   quote_table (fst (markAsAccepted sample_env sent_quote_db 10 900 901)) =
     [sent_quote\<lparr>q_status := ''accepted'', q_accepted_at := Some 901\<rparr>] \<and>
   isl (snd (convertToInvoice sample_env (fst (markAsAccepted sample_env sent_quote_db 10 900 901))
               10 sample_conversion 2000 2000)) \<and>
   same_tables (fst (markAsAccepted sample_env sent_quote_db 10 900 901))
     (fst (convertToInvoice sample_env (fst (markAsAccepted sample_env sent_quote_db 10 900 901))
             10 sample_conversion 2000 2000))"
  by (simp add: sample_defs service_defs cache_eval same_tables_def Let_def number_eval calc_defs)

text \<open>
  C6 (the code departs from the claim). The claim: \<open>markAsAccepted\<close> fails for every quote
  whose validity date is earlier than the current time. The sample quote is sent and valid
  until 1000. At time 2000 \<open>markAsAccepted\<close> refuses it when the quote is read from the
  database. Once \<open>getQuoteById\<close> has read the quote, the cache holds its JSON text;
  \<open>markAsAccepted\<close> then gets the copy, in which \<open>validity_date\<close> is a string, the
  comparison with the clock is false, and the call succeeds: the row of the quote gets the
  status \<open>accepted\<close> and \<open>accepted_at\<close> 2001.
\<close>

theorem markAsAccepted_accepts_expired_cached_quote:
  "find (\<lambda>q. quote_id q = 10) (quote_table sent_quote_db) = Some sent_quote \<and>
   q_status sent_quote = ''sent'' \<and> q_validity_date sent_quote < 2000 \<and>
   (\<forall>st. \<not> fails sample_env st) \<and>
   snd (markAsAccepted sample_env sent_quote_db 10 2000 2001) =
     Inl (QuoteStatusError ''expired'' ''accepter'') \<and>
   snd (getQuoteById sample_env Quote_find sent_quote_db 10) =
     Inr (Live, sent_quote, sample_quote_items) \<and>
   same_tables sent_quote_db (fst (getQuoteById sample_env Quote_find sent_quote_db 10)) \<and>
   \<not> isl (snd (markAsAccepted sample_env
                  (fst (getQuoteById sample_env Quote_find sent_quote_db 10)) 10 2000 2001)) \<and>
   quote_table (fst (markAsAccepted sample_env
                       (fst (getQuoteById sample_env Quote_find sent_quote_db 10)) 10 2000 2001)) =
     [sent_quote\<lparr>q_status := ''accepted'', q_accepted_at := Some 2001\<rparr>]"
  by (simp add: sample_defs service_defs cache_eval same_tables_def Let_def number_eval)

subsection \<open>Failure in the middle of a conversion\<close>

text \<open>
  C2 (the code departs from the claim). The claim: when the creation of the invoice fails
  inside \<open>convertToInvoice\<close>, the conversion fails, the quote is unchanged and no new
  invoice persists, both writes being in one transaction. \<open>createInvoice\<close> commits its own
  transaction before it reads the invoice back. When that read-back raises, \<open>createInvoice\<close>
  fails and so does the conversion; the quote is unchanged, but the new invoice, its item
  rows and the advanced counter stay in the database.
\<close>

theorem convertToInvoice_readback_failure_leaves_invoice:
  "find (\<lambda>q. quote_id q = 10) (quote_table quote_db) = Some sample_quote \<and>
   q_status sample_quote = ''accepted'' \<and> \<not> q_converted_to_invoice sample_quote \<and>
   snd (convertToInvoice readback_fault_env quote_db 10 sample_conversion 2000 2000) =
     Inl QuoteError \<and>
   quote_table (fst (convertToInvoice readback_fault_env quote_db 10 sample_conversion 2000 2000)) =
     quote_table quote_db \<and>
   invoice_table quote_db = [] \<and>
   map invoice_number
     (invoice_table (fst (convertToInvoice readback_fault_env quote_db 10 sample_conversion 2000 2000))) =
     [''INV-9999''] \<and>
   map ii_invoice_id
     (invoiceItem_table (fst (convertToInvoice readback_fault_env quote_db 10 sample_conversion 2000 2000))) =
     [20, 20] \<and>
   map next_invoice_number (companySettings_table quote_db) = [9999] \<and>
   map next_invoice_number
     (companySettings_table (fst (convertToInvoice readback_fault_env quote_db 10 sample_conversion 2000 2000))) =
     [10000]"
  by (simp add: sample_defs service_defs cache_eval calc_defs Let_def number_eval)

subsection \<open>Copies that outlive an update\<close>

text \<open>
  The copy that the first read leaves in the cache outlives the update of the quote. The
  sample quote, sent, is accepted at time 900; its copy in the cache still says \<open>sent\<close>,
  and a second \<open>markAsAccepted\<close> passes the guard and writes \<open>accepted_at\<close> again.
\<close>

lemma markAsAccepted_on_stale_copy:
  "\<not> isl (snd (markAsAccepted sample_env sent_quote_db 10 900 901)) \<and>
   quote_table (fst (markAsAccepted sample_env sent_quote_db 10 900 901)) =
     [sent_quote\<lparr>q_status := ''accepted'', q_accepted_at := Some 901\<rparr>] \<and>
   cache_get_quote (''quote:'' @ digits 10)
     (cache (fst (markAsAccepted sample_env sent_quote_db 10 900 901))) =
     Some (sent_quote, sample_quote_items) \<and>
   \<not> isl (snd (markAsAccepted sample_env
                 (fst (markAsAccepted sample_env sent_quote_db 10 900 901)) 10 950 951)) \<and>
   quote_table (fst (markAsAccepted sample_env
                       (fst (markAsAccepted sample_env sent_quote_db 10 900 901)) 10 950 951)) =
     [sent_quote\<lparr>q_status := ''accepted'', q_accepted_at := Some 951\<rparr>]"
  by (simp add: sample_defs service_defs cache_eval Let_def number_eval)

text \<open>
  A quote without items and without amounts of its own has no column on which \<open>toNumber\<close>
  is called. Its first conversion makes invoice 20 and marks the quote converted; the copy
  in the cache still says that it is not, and a second conversion makes invoice 21 and
  links the quote to it.
\<close>

lemma convertToInvoice_on_stale_copy:
  "find (\<lambda>q. quote_id q = 10) (quote_table bare_quote_db) = Some bare_quote \<and>
   q_status bare_quote = ''accepted'' \<and> \<not> q_converted_to_invoice bare_quote \<and>
   invoice_table bare_quote_db = [] \<and>
   \<not> isl (snd (convertToInvoice sample_env bare_quote_db 10 sample_conversion 2000 2000)) \<and>
   map q_converted_to_invoice
     (quote_table (fst (convertToInvoice sample_env bare_quote_db 10 sample_conversion 2000 2000))) =
     [True] \<and>
   map invoice_id
     (invoice_table (fst (convertToInvoice sample_env bare_quote_db 10 sample_conversion 2000 2000))) =
     [20] \<and>
   \<not> isl (snd (convertToInvoice sample_env
                 (fst (convertToInvoice sample_env bare_quote_db 10 sample_conversion 2000 2000))
                 10 sample_conversion 3000 3000)) \<and>
   map invoice_id
     (invoice_table
        (fst (convertToInvoice sample_env
                (fst (convertToInvoice sample_env bare_quote_db 10 sample_conversion 2000 2000))
                10 sample_conversion 3000 3000))) =
     [20, 21] \<and>
   map q_invoice_id
     (quote_table
        (fst (convertToInvoice sample_env
                (fst (convertToInvoice sample_env bare_quote_db 10 sample_conversion 2000 2000))
                10 sample_conversion 3000 3000))) =
     [Some 21]"
  by (simp add: sample_defs service_defs cache_eval calc_defs Let_def number_eval)

section \<open>Properties of the invoice lifecycle\<close>

lemmas invoice_sample_defs = draft_invoice_def paid_invoice_def cancelled_invoice_def
  sample_invoice_item_def invoice_db_def empty_patch_def sample_items_def

lemmas update_defs = updateInvoice_def invoice_update_data_def patch_def patch_opt_def
  getInvoiceById_def rethrow_invoice_def invoice_item_rows_def





lemma length_rows: "length (invoice_item_rows n iid its) = length its"
  by (simp add: invoice_item_rows_def)

lemma invoice_id_update_data [simp]: "invoice_id (invoice_update_data data tot i) = invoice_id i"
  by (simp add: invoice_update_data_def)

lemma find_invoice_after_update:
  assumes "find (\<lambda>i. invoice_id i = iid) (invoice_table d) = Some i0"
  shows "find (\<lambda>i. invoice_id i = iid)
           (map (\<lambda>i. if invoice_id i = iid then invoice_update_data data tot i else i)
              (invoice_table d)) = Some (invoice_update_data data tot i0)"
  using assms
    find_map_key [where key = invoice_id and f = "invoice_update_data data tot" and k = iid
      and xs = "invoice_table d"]
  by simp


subsection \<open>The guards and the transaction\<close>


lemma updateInvoice_transaction:
  assumes g: "getInvoiceById e Invoice_find d iid = (d0, Inr (ic, its))"
    and st: "same_tables d d0"
    and row: "find (\<lambda>i. invoice_id i = iid) (invoice_table d) = Some i0"
    and pass: "\<not> (inv_status ic = ''paid'' \<and>
                  (up_items data \<noteq> None \<or> truthy (up_amount_excluding_tax data)))"
      "inv_status ic \<noteq> ''cancelled''"
    and nf: "\<not> fails e Invoice_update" "\<not> fails e Invoice_readback"
  shows "\<exists>d' res.
           updateInvoice e d iid data = (d', Inr res) \<and>
           find (\<lambda>i. invoice_id i = iid) (invoice_table d') =
             Some (invoice_update_data data
                     (map_option (\<lambda>xs. totals (calculateInvoiceTotals xs)) (up_items data)) i0) \<and>
           invoiceItem_table d' =
             (case up_items data of
                None \<Rightarrow> invoiceItem_table d
              | Some xs \<Rightarrow>
                  filter (\<lambda>r. ii_invoice_id r \<noteq> iid) (invoiceItem_table d) @
                  invoice_item_rows (next_id d) iid (items (calculateInvoiceTotals xs)))"
proof -
  let ?tot = "map_option totals (map_option calculateInvoiceTotals (up_items data))"
  let ?its = "map_option items (map_option calculateInvoiceTotals (up_items data))"
  let ?d1 = "d0\<lparr>invoice_table :=
      map (\<lambda>i. if invoice_id i = iid then invoice_update_data data ?tot i else i)
        (invoice_table d0)\<rparr>"
  let ?d2 = "case ?its of
      None \<Rightarrow> ?d1
    | Some new_items \<Rightarrow>
        ?d1\<lparr>invoiceItem_table :=
              filter (\<lambda>r. ii_invoice_id r \<noteq> iid) (invoiceItem_table ?d1) @
              invoice_item_rows (next_id ?d1) iid new_items,
            next_id := next_id ?d1 + length new_items\<rparr>"
  let ?d3 = "InvoiceService_invalidateCache iid (inv_company_id ic) ?d2"
  from st row have row0: "find (\<lambda>i. invoice_id i = iid) (invoice_table d0) = Some i0"
    by (simp add: same_tables_def)
  have t2: "invoice_table ?d2 = invoice_table ?d1"
    by (cases "up_items data") simp_all
  have tot: "?tot = map_option (\<lambda>xs. totals (calculateInvoiceTotals xs)) (up_items data)"
    by (cases "up_items data") simp_all
  have "find (\<lambda>i. invoice_id i = iid) (invoice_table ?d3) =
      Some (invoice_update_data data ?tot i0)"
    using find_invoice_after_update [of iid d0 i0 data ?tot, OF row0] t2 by simp
  from getInvoiceById_returns [OF this nf(2)] obtain d4 res
    where rb: "getInvoiceById e Invoice_readback ?d3 iid = (d4, Inr res)"
      and st4: "same_tables ?d3 d4"
    by blast
  have u: "updateInvoice e d iid data = (d4, Inr res)"
    using pass nf(1) row0 rb by (simp add: updateInvoice_def g Let_def)
  have a: "find (\<lambda>i. invoice_id i = iid) (invoice_table d4) =
      Some (invoice_update_data data ?tot i0)"
    using st4 find_invoice_after_update [of iid d0 i0 data ?tot, OF row0] t2
    by (simp add: same_tables_def)
  have b: "invoiceItem_table d4 =
      (case up_items data of
         None \<Rightarrow> invoiceItem_table d
       | Some xs \<Rightarrow>
           filter (\<lambda>r. ii_invoice_id r \<noteq> iid) (invoiceItem_table d) @
           invoice_item_rows (next_id d) iid (items (calculateInvoiceTotals xs)))"
    using st4 st by (cases "up_items data") (simp_all add: same_tables_def)
  from u a b show ?thesis
    unfolding tot by blast
qed


text \<open>
  The guards read the copy. With a copy in the cache whose status is neither \<open>paid\<close> nor
  \<open>cancelled\<close>, the transaction runs on the stored invoice whatever its status is.
\<close>

lemma updateInvoice_cached:
  assumes "cache_get_invoice (''invoice:'' @ digits iid) (cache d) = Some (ic, its)"
    and "find (\<lambda>i. invoice_id i = iid) (invoice_table d) = Some i0"
    and "inv_status ic \<noteq> ''paid''" and "inv_status ic \<noteq> ''cancelled''"
    and "\<not> fails e Invoice_update" and "\<not> fails e Invoice_readback"
  shows "\<exists>d' res.
           updateInvoice e d iid data = (d', Inr res) \<and>
           find (\<lambda>i. invoice_id i = iid) (invoice_table d') =
             Some (invoice_update_data data
                     (map_option (\<lambda>xs. totals (calculateInvoiceTotals xs)) (up_items data)) i0) \<and>
           invoiceItem_table d' =
             (case up_items data of
                None \<Rightarrow> invoiceItem_table d
              | Some xs \<Rightarrow>
                  filter (\<lambda>r. ii_invoice_id r \<noteq> iid) (invoiceItem_table d) @
                  invoice_item_rows (next_id d) iid (items (calculateInvoiceTotals xs)))"
proof -
  have st: "same_tables d d" by (simp add: same_tables_def)
  from assms(3) have pass: "\<not> (inv_status ic = ''paid'' \<and>
      (up_items data \<noteq> None \<or> truthy (up_amount_excluding_tax data)))"
    by simp
  show ?thesis
    by (rule updateInvoice_transaction
        [OF getInvoiceById_hit [OF assms(1)] st assms(2) pass assms(4) assms(5) assms(6)])
qed




text \<open>
  The copy that the first read leaves in the cache outlives the update. On the sample
  database the draft invoice 1 is set to \<open>paid\<close>; its copy in the cache still says \<open>draft\<close>,
  and a second update that carries items passes the guard and replaces the item rows of
  the paid invoice.
\<close>

lemma updateInvoice_on_stale_copy:
  "find (\<lambda>i. invoice_id i = 1) (invoice_table invoice_db) = Some draft_invoice \<and>
   \<not> isl (snd (updateInvoice sample_env invoice_db 1 (empty_patch\<lparr>up_status := Some ''paid''\<rparr>))) \<and>
   find (\<lambda>i. invoice_id i = 1)
     (invoice_table (fst (updateInvoice sample_env invoice_db 1
                            (empty_patch\<lparr>up_status := Some ''paid''\<rparr>)))) =
     Some (draft_invoice\<lparr>inv_status := ''paid''\<rparr>) \<and>
   cache_get_invoice (''invoice:'' @ digits 1)
     (cache (fst (updateInvoice sample_env invoice_db 1 (empty_patch\<lparr>up_status := Some ''paid''\<rparr>)))) =
     Some (draft_invoice, [sample_invoice_item 4 1]) \<and>
   \<not> isl (snd (updateInvoice sample_env
                 (fst (updateInvoice sample_env invoice_db 1 (empty_patch\<lparr>up_status := Some ''paid''\<rparr>)))
                 1 (empty_patch\<lparr>up_items := Some sample_items\<rparr>))) \<and>
   map ii_item_id
     (invoiceItem_table
        (fst (updateInvoice sample_env
                (fst (updateInvoice sample_env invoice_db 1 (empty_patch\<lparr>up_status := Some ''paid''\<rparr>)))
                1 (empty_patch\<lparr>up_items := Some sample_items\<rparr>)))) =
     [5, 6, 7, 8]"
  by (simp add: invoice_sample_defs sample_defs update_defs cache_eval calc_defs Let_def number_eval)

end
